theory Spec2Isabelle
  imports Main
begin

section \<open>Python floats\<close>

text \<open>
  Prices and volumes are Python floats in \<^verbatim>\<open>src/MultiAccountTrade/engine.py\<close>: IEEE 754
  binary64 values, with every sum, difference and product rounded to the nearest double,
  ties to the even mantissa. The smallest positive double is \<open>2\<close> to the power
  \<open>- 1074\<close>, and every finite double is a whole multiple of it, so a finite float is
  \<open>Double k\<close>, standing for \<open>k\<close> times that unit; \<open>Double 0\<close> is \<open>+0.0\<close>. The other
  values are \<open>-0.0\<close>, the two infinities and not-a-number. An operation computes the
  exact result over the integers and rounds it to 53 significant bits.
\<close>

datatype pyfloat = Double int | Minus_zero | Plus_inf | Minus_inf | Nan

definition min_exp :: nat where
  "min_exp = 1074"

fun bit_length :: "nat \<Rightarrow> nat" where
  "bit_length n = (if n = 0 then 0 else Suc (bit_length (n div 2)))"

declare bit_length.simps [simp del]

text \<open>\<open>K\<close> divided by \<open>2 ^ s\<close>, rounded to the nearest integer, ties to even.\<close>

definition round_half_even_shift :: "int \<Rightarrow> nat \<Rightarrow> int" where
  "round_half_even_shift K s =
     (let q = K div 2 ^ s; r = K mod 2 ^ s
      in if 2 * r < 2 ^ s then q
         else if 2 ^ s < 2 * r then q + 1
         else if even q then q else q + 1)"

text \<open>
  The double nearest to the exact value \<open>K / 2 ^ t\<close> units: at most 53 significant bits
  are kept and nothing below one unit; a result of \<open>2 ^ 1024\<close> or more in magnitude
  overflows to an infinity, and a negative value that rounds to zero gives \<open>-0.0\<close>.
\<close>

definition round_to_double :: "int \<Rightarrow> nat \<Rightarrow> pyfloat" where
  "round_to_double K t =
     (let s = max t (bit_length (nat \<bar>K\<bar>) - 53);
          k = round_half_even_shift K s * 2 ^ (s - t)
      in if 2 ^ (1024 + min_exp) \<le> k then Plus_inf
         else if k \<le> - (2 ^ (1024 + min_exp)) then Minus_inf
         else if k = 0 then (if K < 0 then Minus_zero else Double 0)
         else Double k)"

definition is_zero :: "pyfloat \<Rightarrow> bool" where
  "is_zero x = (x = Double 0 \<or> x = Minus_zero)"

definition is_inf :: "pyfloat \<Rightarrow> bool" where
  "is_inf x = (x = Plus_inf \<or> x = Minus_inf)"

fun sign_bit :: "pyfloat \<Rightarrow> bool" where
  "sign_bit (Double k) = (k < 0)"
| "sign_bit Minus_zero = True"
| "sign_bit Minus_inf = True"
| "sign_bit Plus_inf = False"
| "sign_bit Nan = False"

fun grid :: "pyfloat \<Rightarrow> int" where
  "grid (Double k) = k"
| "grid x = 0"

definition fneg :: "pyfloat \<Rightarrow> pyfloat" where
  "fneg x = (case x of
       Double k \<Rightarrow> if k = 0 then Minus_zero else Double (- k)
     | Minus_zero \<Rightarrow> Double 0
     | Plus_inf \<Rightarrow> Minus_inf
     | Minus_inf \<Rightarrow> Plus_inf
     | Nan \<Rightarrow> Nan)"

text \<open>Python's \<^verbatim>\<open>x + y\<close>, \<^verbatim>\<open>x - y\<close> and \<^verbatim>\<open>x * y\<close> on floats.\<close>

fun fadd :: "pyfloat \<Rightarrow> pyfloat \<Rightarrow> pyfloat" where
  "fadd Nan y = Nan"
| "fadd x Nan = Nan"
| "fadd Plus_inf Minus_inf = Nan"
| "fadd Minus_inf Plus_inf = Nan"
| "fadd Plus_inf y = Plus_inf"
| "fadd x Plus_inf = Plus_inf"
| "fadd Minus_inf y = Minus_inf"
| "fadd x Minus_inf = Minus_inf"
| "fadd Minus_zero y = y"
| "fadd x Minus_zero = x"
| "fadd (Double a) (Double b) = round_to_double (a + b) 0"

definition fsub :: "pyfloat \<Rightarrow> pyfloat \<Rightarrow> pyfloat" where
  "fsub x y = fadd x (fneg y)"

definition fmul :: "pyfloat \<Rightarrow> pyfloat \<Rightarrow> pyfloat" where
  "fmul x y =
     (if x = Nan \<or> y = Nan then Nan
      else if (is_inf x \<and> is_zero y) \<or> (is_zero x \<and> is_inf y) then Nan
      else if is_inf x \<or> is_inf y then
        (if sign_bit x = sign_bit y then Plus_inf else Minus_inf)
      else if is_zero x \<or> is_zero y then
        (if sign_bit x = sign_bit y then Double 0 else Minus_zero)
      else round_to_double (grid x * grid y) min_exp)"

text \<open>
  Python's \<^verbatim>\<open>x < y\<close> and \<^verbatim>\<open>x == y\<close>: false whenever an operand is not-a-number, and
  the two zeros are equal. \<open>truthy\<close> is the truth value of a float in a condition: every
  float but the two zeros.
\<close>

fun flt :: "pyfloat \<Rightarrow> pyfloat \<Rightarrow> bool" where
  "flt Nan y = False"
| "flt x Nan = False"
| "flt x Minus_inf = False"
| "flt Minus_inf y = True"
| "flt Plus_inf y = False"
| "flt x Plus_inf = True"
| "flt x y = (grid x < grid y)"

definition feq :: "pyfloat \<Rightarrow> pyfloat \<Rightarrow> bool" where
  "feq x y = (x \<noteq> Nan \<and> y \<noteq> Nan \<and> (x = y \<or> (is_zero x \<and> is_zero y)))"

definition truthy :: "pyfloat \<Rightarrow> bool" where
  "truthy x = (\<not> is_zero x)"

text \<open>
  The float a Python int converts to, as the literal \<^verbatim>\<open>2\<close> does in
  \<^verbatim>\<open>contract.pricetick * 2\<close>.
\<close>

definition pyfloat_of_int :: "int \<Rightarrow> pyfloat" where
  "pyfloat_of_int n = round_to_double (n * 2 ^ min_exp) 0"

text \<open>
  Two ways to write a float down: \<open>whole n\<close> is the float whose value is the integer
  \<open>n\<close>, and \<open>dbl m e\<close> the float whose value is \<open>m\<close> times \<open>2\<close> to the power \<open>e\<close>.
  Python's \<^verbatim>\<open>(0.2).as_integer_ratio()\<close> is 3602879701896397 over \<open>2 ^ 54\<close>, so 0.2 is
  \<open>dbl 3602879701896397 (- 54)\<close>.
\<close>

definition whole :: "int \<Rightarrow> pyfloat" where
  "whole n = Double (n * 2 ^ min_exp)"

definition dbl :: "int \<Rightarrow> int \<Rightarrow> pyfloat" where
  "dbl m e = Double (m * 2 ^ nat (e + int min_exp))"

section \<open>Enumerations of the trading library\<close>

text \<open>
  The engine works on the constants and data objects of the trading library it imports.
  Each enumeration is a datatype; the members the engine names are all present.
\<close>

datatype Direction = LONG | SHORT | NET

datatype Offset = OFFSET_NONE | OPEN | CLOSE | CLOSETODAY | CLOSEYESTERDAY

datatype OrderType = LIMIT | MARKET | STOP | FAK | FOK | RFQ

datatype Exchange = CFFEX | SHFE | CZCE | DCE | INE | GFEX | OTHER_EXCHANGE string

datatype Status = SUBMITTING | NOTTRADED | PARTTRADED | ALLTRADED | CANCELLED | REJECTED

text \<open>
  \<^verbatim>\<open>Direction.X.value\<close>: the library's values are the Chinese words for long, short and
  net; a string here is a list of bytes, so each value is the UTF-8 encoding of its word.
\<close>

fun Direction_value :: "Direction \<Rightarrow> string" where
  "Direction_value LONG = [CHR 0xE5, CHR 0xA4, CHR 0x9A]"
| "Direction_value SHORT = [CHR 0xE7, CHR 0xA9, CHR 0xBA]"
| "Direction_value NET = [CHR 0xE5, CHR 0x87, CHR 0x80]"

section \<open>Data objects\<close>

text \<open>Each record carries the attributes the engine reads.\<close>

record TickData =
  tick_vt_symbol :: string
  bid_price_1 :: pyfloat
  ask_price_1 :: pyfloat

record ContractData =
  contract_symbol :: string
  contract_exchange :: Exchange
  contract_vt_symbol :: string
  pricetick :: pyfloat

record PositionData =
  vt_positionid :: string
  position_volume :: pyfloat
  position_frozen :: pyfloat
  yd_volume :: pyfloat

record AccountData =
  account_gateway_name :: string
  account_balance :: pyfloat

record TradeData =
  vt_tradeid :: string
  trade_vt_symbol :: string
  trade_volume :: pyfloat
  trade_direction :: Direction
  trade_offset :: Offset
  trade_gateway_name :: string

record OrderData =
  order_gateway_name :: string
  order_symbol :: string
  order_exchange :: Exchange
  order_orderid :: string
  vt_orderid :: string
  order_vt_symbol :: string
  order_direction :: Direction
  order_offset :: Offset
  order_volume :: pyfloat
  order_traded :: pyfloat
  order_status :: Status

record OrderRequest =
  req_symbol :: string
  req_exchange :: Exchange
  req_price :: pyfloat
  req_volume :: pyfloat
  req_direction :: Direction
  req_offset :: Offset
  req_type :: OrderType

record CancelRequest =
  cancel_orderid :: string
  cancel_symbol :: string
  cancel_exchange :: Exchange

text \<open>
  Modelled from the spec: \<^verbatim>\<open>OrderData.is_active\<close> belongs to the trading library, not to
  this repository's sources. The spec gives the terminal statuses as filled, cancelled and
  rejected, and an order as active when its status is none of them.
\<close>

definition is_active :: "OrderData \<Rightarrow> bool" where
  "is_active order = (order_status order \<in> set [SUBMITTING, NOTTRADED, PARTTRADED])"

text \<open>
  Modelled from the spec: \<^verbatim>\<open>OrderData.create_cancel_request\<close> belongs to the trading
  library. The spec has the cancel request built from the order's own symbol, exchange
  and id.
\<close>

definition create_cancel_request :: "OrderData \<Rightarrow> CancelRequest" where
  "create_cancel_request order =
     \<lparr>cancel_orderid = order_orderid order,
      cancel_symbol = order_symbol order,
      cancel_exchange = order_exchange order\<rparr>"

section \<open>Log messages, gateways and the engine state\<close>

text \<open>
  \<^verbatim>\<open>MainEngine.log\<close> puts a log event on the event engine's queue. The queue of log
  events is the list \<open>logs\<close>. A fixed message is its text; a formatted message keeps the
  values it formats.
\<close>

datatype LogMsg =
    Text string
  | Send_order_msg string OrderRequest
  | Trade_msg TradeData
  | Cancel_active_order_msg OrderData

record LogData =
  log_gateway_name :: "string option"
  log_msg :: LogMsg

text \<open>
  A gateway is an external collaborator. Its \<^verbatim>\<open>send_order\<close> either returns an
  identifier or raises; which of the two, and what, may depend on the requests it has
  been called with so far and on the new request. The engine does not guard the call, so
  an exception it raises is an outcome of the engine's own operation. \<open>sent_orders\<close> and
  \<open>cancelled_orders\<close> are the requests the gateway has been called with, in order.
\<close>

datatype py_exception = Py_exception string

record Gateway =
  gw_send_order :: "OrderRequest list \<Rightarrow> OrderRequest \<Rightarrow> py_exception + string"
  sent_orders :: "OrderRequest list"
  cancelled_orders :: "CancelRequest list"

record MainEngine =
  ticks :: "string \<rightharpoonup> TickData"
  orders :: "string \<rightharpoonup> OrderData"
  trades :: "string \<rightharpoonup> TradeData"
  accounts :: "string \<rightharpoonup> AccountData"
  contracts :: "string \<rightharpoonup> ContractData"
  positions :: "string \<rightharpoonup> PositionData"
  active_orders :: "string \<rightharpoonup> OrderData"
  gateways :: "string \<rightharpoonup> Gateway"
  logs :: "LogData list"

text \<open>
  Modelled from the spec: \<^verbatim>\<open>utility.get_df\<close> is not among the sources. Every getter
  calls it with \<^verbatim>\<open>use_df = False\<close> on the trading paths, and the spec has a getter
  return the stored value or "not found", never a placeholder.
\<close>

definition get_df :: "'a option \<Rightarrow> 'a option" where
  "get_df data = data"

definition get_gateway :: "MainEngine \<Rightarrow> string \<Rightarrow> Gateway option" where
  "get_gateway s gateway_name = gateways s gateway_name"

definition get_tick :: "MainEngine \<Rightarrow> string \<Rightarrow> TickData option" where
  "get_tick s vt_symbol = get_df (ticks s vt_symbol)"

definition get_contract :: "MainEngine \<Rightarrow> string \<Rightarrow> ContractData option" where
  "get_contract s vt_symbol = get_df (contracts s vt_symbol)"

definition get_position :: "MainEngine \<Rightarrow> string \<Rightarrow> PositionData option" where
  "get_position s positionid = get_df (positions s positionid)"

definition get_active_order :: "MainEngine \<Rightarrow> string \<Rightarrow> OrderData option" where
  "get_active_order s orderid = get_df (active_orders s orderid)"

definition engine_log :: "MainEngine \<Rightarrow> LogMsg \<Rightarrow> string option \<Rightarrow> MainEngine" where
  "engine_log s m gateway_name =
     s\<lparr>logs := logs s @ [\<lparr>log_gateway_name = gateway_name, log_msg = m\<rparr>]\<rparr>"

section \<open>Order routing\<close>

text \<open>
  \<^verbatim>\<open>MainEngine._send_order\<close>. An operation of the router returns its outcome, an
  exception raised (\<open>Inl\<close>) or a value returned (\<open>Inr\<close>), together with the engine as the
  operation leaves it. An unregistered gateway name gives the empty identifier and no log
  entry. When the gateway raises, the request has reached it and the log call after it is
  not run.
\<close>

definition send_order ::
  "MainEngine \<Rightarrow> OrderRequest \<Rightarrow> string \<Rightarrow> (py_exception + string) \<times> MainEngine" where
  "send_order s req gateway_name =
     (case get_gateway s gateway_name of
        Some gateway \<Rightarrow>
          (let s1 = s\<lparr>gateways := (gateways s)(gateway_name \<mapsto>
                      gateway\<lparr>sent_orders := sent_orders gateway @ [req]\<rparr>)\<rparr>
           in case gw_send_order gateway (sent_orders gateway) req of
                Inl e \<Rightarrow> (Inl e, s1)
              | Inr orderid \<Rightarrow>
                  (Inr orderid, engine_log s1 (Send_order_msg orderid req) (Some gateway_name)))
      | None \<Rightarrow> (Inr '''', s))"

text \<open>
  The loop \<^verbatim>\<open>for req in reqs: vt_orderids.append(self._send_order(req, gateway_name))\<close>:
  an exception ends it, and the requests after the failing one are not sent.
\<close>

fun send_reqs ::
  "MainEngine \<Rightarrow> OrderRequest list \<Rightarrow> string \<Rightarrow> string list
     \<Rightarrow> (py_exception + string list) \<times> MainEngine" where
  "send_reqs s [] gateway_name vt_orderids = (Inr vt_orderids, s)"
| "send_reqs s (req # reqs) gateway_name vt_orderids =
     (case send_order s req gateway_name of
        (Inl e, s1) \<Rightarrow> (Inl e, s1)
      | (Inr orderid, s1) \<Rightarrow> send_reqs s1 reqs gateway_name (vt_orderids @ [orderid]))"

definition position_key :: "string \<Rightarrow> string \<Rightarrow> Direction \<Rightarrow> string" where
  "position_key gateway_name vt_symbol direction =
     gateway_name @ ''.'' @ vt_symbol @ ''.'' @ Direction_value direction"

text \<open>
  \<^verbatim>\<open>MainEngine._send_taker_order\<close> up to its loop: either one of the three early
  returns, given by the message it logs (\<open>Inl\<close>), or the list \<^verbatim>\<open>reqs\<close> the loop is
  entered with (\<open>Inr\<close>). The request object \<^verbatim>\<open>req\<close> is mutated in place in the source;
  here each mutation is a record update. In the split branch the copy \<^verbatim>\<open>req_td\<close> is
  appended to \<^verbatim>\<open>reqs\<close> inside the branch and \<^verbatim>\<open>req\<close> after it, so \<^verbatim>\<open>reqs\<close> is
  \<^verbatim>\<open>[req_td, req]\<close>. All arithmetic and every comparison is on floats.
\<close>

definition taker_reqs ::
  "MainEngine \<Rightarrow> string \<Rightarrow> pyfloat \<Rightarrow> Direction \<Rightarrow> Offset \<Rightarrow> string
     \<Rightarrow> string + OrderRequest list" where
  "taker_reqs s vt_symbol volume direction offset gateway_name =
     (case get_tick s vt_symbol of
        None \<Rightarrow> Inl ''Tick or contract data is none''
      | Some tick \<Rightarrow>
     (case get_contract s vt_symbol of
        None \<Rightarrow> Inl ''Tick or contract data is none''
      | Some contract \<Rightarrow>
     (let price = (if direction = LONG
                   then fadd (ask_price_1 tick) (fmul (pricetick contract) (pyfloat_of_int 2))
                   else fsub (bid_price_1 tick) (fmul (pricetick contract) (pyfloat_of_int 2)));
          req = \<lparr>req_symbol = contract_symbol contract,
                 req_exchange = contract_exchange contract,
                 req_price = price,
                 req_volume = volume,
                 req_direction = direction,
                 req_offset = offset,
                 req_type = LIMIT\<rparr>
      in
      if offset = CLOSE then
        (case (if direction = LONG
               then get_position s (position_key gateway_name (contract_vt_symbol contract) SHORT)
               else get_position s (position_key gateway_name (contract_vt_symbol contract) LONG)) of
           None \<Rightarrow> Inl ''Position data is none''
         | Some position \<Rightarrow>
             if flt (fsub (position_volume position) (position_frozen position)) volume then
               Inl ''No enough close volume''
             else if contract_exchange contract \<in> set [SHFE, INE] then
               (if \<not> truthy (yd_volume position) then
                  Inr [req\<lparr>req_offset := CLOSETODAY\<rparr>]
                else if feq (position_volume position) (yd_volume position) then
                  Inr [req\<lparr>req_offset := CLOSEYESTERDAY\<rparr>]
                else
                  (let req_yd = req\<lparr>req_volume := fsub (yd_volume position)
                                                        (position_frozen position),
                                     req_offset := CLOSEYESTERDAY\<rparr>;
                       req_td = req_yd\<lparr>req_volume := fsub volume (req_volume req_yd),
                                        req_offset := CLOSETODAY\<rparr>
                   in Inr [req_td, req_yd]))
             else Inr [req])
      else Inr [req])))"

text \<open>
  \<^verbatim>\<open>MainEngine._send_taker_order\<close>: an early return appends the empty identifier,
  logs its message under the gateway's name and returns; otherwise the loop sends the
  requests in order.
\<close>

definition send_taker_order ::
  "MainEngine \<Rightarrow> string \<Rightarrow> pyfloat \<Rightarrow> Direction \<Rightarrow> Offset \<Rightarrow> string
     \<Rightarrow> (py_exception + string list) \<times> MainEngine" where
  "send_taker_order s vt_symbol volume direction offset gateway_name =
     (case taker_reqs s vt_symbol volume direction offset gateway_name of
        Inl msg \<Rightarrow> (Inr [''''], engine_log s (Text msg) (Some gateway_name))
      | Inr reqs \<Rightarrow> send_reqs s reqs gateway_name [])"

definition buy ::
  "MainEngine \<Rightarrow> string \<Rightarrow> pyfloat \<Rightarrow> string \<Rightarrow> (py_exception + string list) \<times> MainEngine" where
  "buy s vt_symbol volume gateway_name = send_taker_order s vt_symbol volume LONG OPEN gateway_name"

definition sell ::
  "MainEngine \<Rightarrow> string \<Rightarrow> pyfloat \<Rightarrow> string \<Rightarrow> (py_exception + string list) \<times> MainEngine" where
  "sell s vt_symbol volume gateway_name = send_taker_order s vt_symbol volume SHORT CLOSE gateway_name"

definition short ::
  "MainEngine \<Rightarrow> string \<Rightarrow> pyfloat \<Rightarrow> string \<Rightarrow> (py_exception + string list) \<times> MainEngine" where
  "short s vt_symbol volume gateway_name = send_taker_order s vt_symbol volume SHORT OPEN gateway_name"

definition cover ::
  "MainEngine \<Rightarrow> string \<Rightarrow> pyfloat \<Rightarrow> string \<Rightarrow> (py_exception + string list) \<times> MainEngine" where
  "cover s vt_symbol volume gateway_name = send_taker_order s vt_symbol volume LONG CLOSE gateway_name"

section \<open>Cancellation\<close>

text \<open>\<^verbatim>\<open>MainEngine._cancel_order\<close> and \<^verbatim>\<open>MainEngine.cancel_active_order\<close>.\<close>

definition cancel_order :: "MainEngine \<Rightarrow> CancelRequest \<Rightarrow> string \<Rightarrow> MainEngine" where
  "cancel_order s req gateway_name =
     (case get_gateway s gateway_name of
        Some gateway \<Rightarrow>
          s\<lparr>gateways := (gateways s)(gateway_name \<mapsto>
               gateway\<lparr>cancelled_orders := cancelled_orders gateway @ [req]\<rparr>)\<rparr>
      | None \<Rightarrow> s)"

definition cancel_active_order :: "MainEngine \<Rightarrow> string \<Rightarrow> MainEngine" where
  "cancel_active_order s orderid =
     (case get_active_order s orderid of
        Some active_order \<Rightarrow>
          (let req = create_cancel_request active_order;
               s1 = cancel_order s req (order_gateway_name active_order)
           in engine_log s1 (Cancel_active_order_msg active_order) None)
      | None \<Rightarrow> s)"

section \<open>Event handlers of the state cache\<close>

datatype Event =
    EVENT_TICK TickData
  | EVENT_ORDER OrderData
  | EVENT_TRADE TradeData
  | EVENT_ACCOUNT AccountData
  | EVENT_CONTRACT ContractData
  | EVENT_POSITION PositionData

definition process_tick_event :: "MainEngine \<Rightarrow> TickData \<Rightarrow> MainEngine" where
  "process_tick_event s tick = s\<lparr>ticks := (ticks s)(tick_vt_symbol tick \<mapsto> tick)\<rparr>"

definition process_order_event :: "MainEngine \<Rightarrow> OrderData \<Rightarrow> MainEngine" where
  "process_order_event s order =
     (let s1 = s\<lparr>orders := (orders s)(vt_orderid order \<mapsto> order)\<rparr>
      in if is_active order then
           s1\<lparr>active_orders := (active_orders s1)(vt_orderid order \<mapsto> order)\<rparr>
         else if vt_orderid order \<in> dom (active_orders s1) then
           s1\<lparr>active_orders := (active_orders s1)(vt_orderid order := None)\<rparr>
         else s1)"

definition process_trade_event :: "MainEngine \<Rightarrow> TradeData \<Rightarrow> MainEngine" where
  "process_trade_event s trade =
     engine_log (s\<lparr>trades := (trades s)(vt_tradeid trade \<mapsto> trade)\<rparr>)
       (Trade_msg trade) (Some (trade_gateway_name trade))"

definition process_position_event :: "MainEngine \<Rightarrow> PositionData \<Rightarrow> MainEngine" where
  "process_position_event s position =
     s\<lparr>positions := (positions s)(vt_positionid position \<mapsto> position)\<rparr>"

definition process_contract_event :: "MainEngine \<Rightarrow> ContractData \<Rightarrow> MainEngine" where
  "process_contract_event s contract =
     (if get_contract s (contract_vt_symbol contract) = None
      then s\<lparr>contracts := (contracts s)(contract_vt_symbol contract \<mapsto> contract)\<rparr>
      else s)"

definition process_account_event :: "MainEngine \<Rightarrow> AccountData \<Rightarrow> MainEngine" where
  "process_account_event s account =
     s\<lparr>accounts := (accounts s)(account_gateway_name account \<mapsto> account)\<rparr>"

text \<open>
  \<^verbatim>\<open>_register_process_event\<close> registers one handler for each kind of event; the event
  engine calls the handler of the event's kind.
\<close>

fun process_event :: "MainEngine \<Rightarrow> Event \<Rightarrow> MainEngine" where
  "process_event s (EVENT_TICK tick) = process_tick_event s tick"
| "process_event s (EVENT_ORDER order) = process_order_event s order"
| "process_event s (EVENT_TRADE trade) = process_trade_event s trade"
| "process_event s (EVENT_ACCOUNT account) = process_account_event s account"
| "process_event s (EVENT_CONTRACT contract) = process_contract_event s contract"
| "process_event s (EVENT_POSITION position) = process_position_event s position"

text \<open>The events are handled one at a time, in the order they were put on the queue.\<close>

fun process_events :: "MainEngine \<Rightarrow> Event list \<Rightarrow> MainEngine" where
  "process_events s [] = s"
| "process_events s (e # es) = process_events (process_event s e) es"

text \<open>
  The state \<^verbatim>\<open>__init__\<close> leaves behind: every cache empty, the configured gateways
  registered, and the message \<^verbatim>\<open>Engine inited\<close> logged.
\<close>

definition init_engine :: "(string \<rightharpoonup> Gateway) \<Rightarrow> MainEngine" where
  "init_engine gws =
     \<lparr>ticks = Map.empty, orders = Map.empty, trades = Map.empty, accounts = Map.empty,
      contracts = Map.empty, positions = Map.empty, active_orders = Map.empty,
      gateways = gws,
      logs = [\<lparr>log_gateway_name = None, log_msg = Text ''Engine inited''\<rparr>]\<rparr>"

section \<open>The order most recently processed for an id\<close>

text \<open>
  The specification's side of the Active Order Index: the order of the last order-update
  event of a sequence that carries a given id, if there is one. It is written from the
  spec's words, to be compared with the caches the handlers build.
\<close>

fun latest_order :: "Event list \<Rightarrow> string \<Rightarrow> OrderData option" where
  "latest_order [] orderid = None"
| "latest_order (e # es) orderid =
     (case latest_order es orderid of
        Some order \<Rightarrow> Some order
      | None \<Rightarrow>
          (case e of
             EVENT_ORDER order \<Rightarrow> if vt_orderid order = orderid then Some order else None
           | _ \<Rightarrow> None))"

section \<open>Example states\<close>

text \<open>
  The spec's example: gateway \<^verbatim>\<open>G1\<close>, symbol \<^verbatim>\<open>X\<close>, tick size 1, best bid and ask
  99 and 101. The example gateway numbers the orders it receives; the gateway \<^verbatim>\<open>G3\<close>
  raises on every order. The example engine is the initial engine after a tick, a contract
  and some position events.
\<close>

definition example_gateway :: Gateway where
  "example_gateway =
     \<lparr>gw_send_order = (\<lambda>sent req. Inr (''G1.'' @ replicate (Suc (length sent)) (CHR ''i''))),
      sent_orders = [], cancelled_orders = []\<rparr>"

definition failing_gateway :: Gateway where
  "failing_gateway =
     \<lparr>gw_send_order = (\<lambda>sent req. Inl (Py_exception ''not connected'')),
      sent_orders = [], cancelled_orders = []\<rparr>"

definition example_tick :: TickData where
  "example_tick = \<lparr>tick_vt_symbol = ''X'', bid_price_1 = whole 99, ask_price_1 = whole 101\<rparr>"

definition example_contract :: "Exchange \<Rightarrow> ContractData" where
  "example_contract ex =
     \<lparr>contract_symbol = ''X'', contract_exchange = ex, contract_vt_symbol = ''X'',
      pricetick = whole 1\<rparr>"

definition example_position :: "Direction \<Rightarrow> pyfloat \<Rightarrow> pyfloat \<Rightarrow> pyfloat \<Rightarrow> PositionData" where
  "example_position d v f yd =
     \<lparr>vt_positionid = position_key ''G1'' ''X'' d,
      position_volume = v, position_frozen = f, yd_volume = yd\<rparr>"

definition example_engine :: "Exchange \<Rightarrow> PositionData list \<Rightarrow> MainEngine" where
  "example_engine ex ps =
     process_events (init_engine [''G1'' \<mapsto> example_gateway, ''G3'' \<mapsto> failing_gateway])
       ([EVENT_TICK example_tick, EVENT_CONTRACT (example_contract ex)] @ map EVENT_POSITION ps)"

definition example_order :: "string \<Rightarrow> Status \<Rightarrow> OrderData" where
  "example_order oid st =
     \<lparr>order_gateway_name = ''G1'', order_symbol = ''X'', order_exchange = SHFE,
      order_orderid = oid, vt_orderid = ''G1.'' @ oid, order_vt_symbol = ''X'',
      order_direction = LONG, order_offset = OPEN, order_volume = whole 5,
      order_traded = whole 0, order_status = st\<rparr>"

section \<open>Facts about the float arithmetic\<close>

text \<open>
  Bounds on the bit length, when rounding is exact, how rounding scales, and what the
  operations do on whole numbers. The sign of a difference is exact: if \<open>x < y\<close> then
  \<open>x - y\<close> is negative, also after rounding.
\<close>

lemma bit_length_bounds:
  "0 < n \<Longrightarrow> 2 ^ (bit_length n - 1) \<le> n \<and> n < 2 ^ bit_length n"
proof (induction n rule: bit_length.induct)
  case (1 n)
  show ?case
  proof (cases "n div 2 = 0")
    case True
    with "1.prems" have "n = 1" by presburger
    then show ?thesis by (simp add: bit_length.simps)
  next
    case False
    then have pos: "0 < n div 2" by simp
    from "1.IH" [OF _ pos] "1.prems"
    have ih: "2 ^ (bit_length (n div 2) - 1) \<le> n div 2 \<and> n div 2 < 2 ^ bit_length (n div 2)"
      by simp
    have bl: "bit_length n = Suc (bit_length (n div 2))"
      using "1.prems" by (subst bit_length.simps) simp
    have blpos: "0 < bit_length (n div 2)"
      using pos by (subst bit_length.simps) simp
    then obtain j where j: "bit_length (n div 2) = Suc j"
      by (cases "bit_length (n div 2)") simp_all
    from ih j have "2 ^ j \<le> n div 2" "n div 2 < 2 ^ Suc j" by simp_all
    then have "2 * 2 ^ j \<le> n" "n < 2 * 2 ^ Suc j" by presburger+
    then show ?thesis by (simp add: bl j)
  qed
qed

lemma bit_length_le:
  assumes "n < 2 ^ k"
  shows "bit_length n \<le> k"
proof (cases "n = 0")
  case True
  then show ?thesis by (simp add: bit_length.simps)
next
  case False
  then have "2 ^ (bit_length n - 1) \<le> n" using bit_length_bounds [of n] by simp
  with assms have "(2::nat) ^ (bit_length n - 1) < 2 ^ k" by linarith
  then have "bit_length n - 1 < k" by simp
  then show ?thesis by simp
qed

lemma round_half_even_shift_dvd:
  assumes "2 ^ s dvd K"
  shows "round_half_even_shift K s = K div 2 ^ s"
proof -
  from assms have "K mod 2 ^ s = 0" by simp
  then show ?thesis by (simp add: round_half_even_shift_def)
qed

lemma round_to_double_exact:
  assumes nz: "K \<noteq> 0" and dvd: "2 ^ u dvd K" and tu: "t \<le> u"
    and small: "\<bar>K\<bar> < 2 ^ (53 + u)" and range: "53 + u - t \<le> 1024 + min_exp"
  shows "round_to_double K t = Double (K div 2 ^ t)"
proof -
  define s where "s = max t (bit_length (nat \<bar>K\<bar>) - 53)"
  have "nat \<bar>K\<bar> < 2 ^ (53 + u)"
    using small by (simp add: nat_less_iff)
  then have "bit_length (nat \<bar>K\<bar>) \<le> 53 + u" by (rule bit_length_le)
  then have su: "s \<le> u" using tu by (simp add: s_def)
  have ts: "t \<le> s" by (simp add: s_def)
  then obtain d where d: "s = t + d" using le_Suc_ex by blast
  have sd: "(2::int) ^ s dvd K"
    using dvd su by (meson dvd_trans le_imp_power_dvd)
  then obtain c where c: "K = 2 ^ s * c" by (auto simp: dvd_def)
  have rs: "round_half_even_shift K s = c"
    by (simp add: round_half_even_shift_dvd [OF sd]) (simp add: c)
  have Kt: "K = 2 ^ t * (2 ^ d * c)"
    by (simp add: c d power_add mult.assoc)
  have divt: "K div 2 ^ t = 2 ^ d * c"
    by (simp add: Kt)
  have k: "round_half_even_shift K s * 2 ^ (s - t) = K div 2 ^ t"
    unfolding rs divt by (simp add: d mult.commute)
  have knz: "K div 2 ^ t \<noteq> 0"
    using nz Kt divt by auto
  have "\<bar>K div 2 ^ t\<bar> * 2 ^ t = \<bar>K\<bar>"
    by (simp add: divt) (simp add: Kt abs_mult mult.commute)
  moreover have "\<bar>K\<bar> < 2 ^ (53 + u - t) * 2 ^ t"
    using small tu by (simp flip: power_add)
  ultimately have "\<bar>K div 2 ^ t\<bar> * 2 ^ t < 2 ^ (53 + u - t) * 2 ^ t" by simp
  then have "\<bar>K div 2 ^ t\<bar> < 2 ^ (53 + u - t)" by simp
  also have "(2::int) ^ (53 + u - t) \<le> 2 ^ (1024 + min_exp)"
    using range by (rule power_increasing) simp
  finally have bound: "\<bar>K div 2 ^ t\<bar> < 2 ^ (1024 + min_exp)" .
  have "round_to_double K t =
     (let k = round_half_even_shift K s * 2 ^ (s - t)
      in if 2 ^ (1024 + min_exp) \<le> k then Plus_inf
         else if k \<le> - (2 ^ (1024 + min_exp)) then Minus_inf
         else if k = 0 then (if K < 0 then Minus_zero else Double 0)
         else Double k)"
    by (simp add: round_to_double_def s_def Let_def)
  also have "\<dots> = Double (K div 2 ^ t)"
    unfolding Let_def k using knz bound by auto
  finally show ?thesis .
qed


lemma round_to_double_zero: "round_to_double 0 t = Double 0"
  by (simp add: round_to_double_def round_half_even_shift_def bit_length.simps)

lemma bit_length_scaled:
  assumes "0 < m"
  shows "bit_length (m * 2 ^ n) = bit_length m + n"
proof (induction n)
  case 0
  show ?case by simp
next
  case (Suc n)
  have "bit_length (m * 2 ^ Suc n) = bit_length (2 * (m * 2 ^ n))"
    by (simp add: mult.commute mult.left_commute)
  also have "\<dots> = Suc (bit_length (m * 2 ^ n))"
    using assms by (subst bit_length.simps) simp
  finally show ?case by (simp add: Suc.IH)
qed

lemma round_half_even_shift_scaled:
  "round_half_even_shift (M * 2 ^ n) (s + n) = round_half_even_shift M s"
proof -
  have p: "(2::int) ^ (s + n) = 2 ^ n * 2 ^ s" by (simp add: power_add)
  have q: "(M * 2 ^ n) div 2 ^ (s + n) = M div 2 ^ s"
    unfolding p by (simp add: mult.commute [of M])
  have r: "(M * 2 ^ n) mod 2 ^ (s + n) = 2 ^ n * (M mod 2 ^ s)"
    unfolding p by (simp add: mult.commute [of M])
  have lt: "2 * (2 ^ n * (M mod 2 ^ s)) < 2 ^ n * 2 ^ s \<longleftrightarrow> 2 * (M mod 2 ^ s) < 2 ^ s"
    by (simp add: mult.left_commute [of 2])
  have gt: "2 ^ n * 2 ^ s < 2 * (2 ^ n * (M mod 2 ^ s)) \<longleftrightarrow> 2 ^ s < 2 * (M mod 2 ^ s)"
    by (simp add: mult.left_commute [of 2])
  show ?thesis
    unfolding round_half_even_shift_def q r Let_def
    unfolding p lt gt ..
qed

lemma round_to_double_scaled:
  assumes nz: "M \<noteq> 0" and tn: "t \<le> n"
  shows "round_to_double (M * 2 ^ n) t =
     (let s = bit_length (nat \<bar>M\<bar>) - 53;
          k = round_half_even_shift M s * 2 ^ (s + n - t)
      in if 2 ^ (1024 + min_exp) \<le> k then Plus_inf
         else if k \<le> - (2 ^ (1024 + min_exp)) then Minus_inf
         else if k = 0 then (if M < 0 then Minus_zero else Double 0)
         else Double k)"
proof -
  define b where "b = bit_length (nat \<bar>M\<bar>)"
  define s' where "s' = max t (bit_length (nat \<bar>M * 2 ^ n\<bar>) - 53)"
  have "nat \<bar>M * 2 ^ n\<bar> = nat \<bar>M\<bar> * 2 ^ n"
    by (simp add: abs_mult nat_mult_distrib nat_power_eq)
  moreover have "0 < nat \<bar>M\<bar>" using nz by simp
  ultimately have bl: "bit_length (nat \<bar>M * 2 ^ n\<bar>) = b + n"
    by (simp add: bit_length_scaled b_def)
  have sign: "M * 2 ^ n < 0 \<longleftrightarrow> M < 0"
    by (simp add: mult_less_0_iff)
  have k: "round_half_even_shift (M * 2 ^ n) s' * 2 ^ (s' - t)
         = round_half_even_shift M (b - 53) * 2 ^ (b - 53 + n - t)"
  proof (cases "53 \<le> b")
    case True
    then have s': "s' = (b - 53) + n" using tn by (simp add: s'_def bl)
    show ?thesis by (simp add: s' round_half_even_shift_scaled)
  next
    case False
    then have b: "b - 53 = 0" by simp
    have s'n: "s' \<le> n" using False tn by (simp add: s'_def bl)
    then obtain d where d: "n = s' + d" using le_Suc_ex by blast
    have ts': "t \<le> s'" by (simp add: s'_def)
    then obtain d' where d': "s' = t + d'" using le_Suc_ex by blast
    have dv: "(2::int) ^ s' dvd M * 2 ^ n"
      by (simp add: d power_add)
    have "round_half_even_shift (M * 2 ^ n) s' = M * 2 ^ d"
      by (simp add: round_half_even_shift_dvd [OF dv]) (simp add: d power_add)
    moreover have "round_half_even_shift M 0 = M"
      by (simp add: round_half_even_shift_def)
    moreover have "n - t = d + d'" using d d' by simp
    moreover have "s' - t = d'" using d' by simp
    ultimately show ?thesis
      by (simp add: b power_add mult.assoc)
  qed
  have "round_to_double (M * 2 ^ n) t =
     (let k = round_half_even_shift (M * 2 ^ n) s' * 2 ^ (s' - t)
      in if 2 ^ (1024 + min_exp) \<le> k then Plus_inf
         else if k \<le> - (2 ^ (1024 + min_exp)) then Minus_inf
         else if k = 0 then (if M * 2 ^ n < 0 then Minus_zero else Double 0)
         else Double k)"
    by (simp add: round_to_double_def s'_def Let_def)
  then show ?thesis
    unfolding Let_def k sign b_def .
qed

lemma whole_zero: "whole 0 = Double 0"
  by (simp add: whole_def)

lemma round_to_double_whole:
  assumes "\<bar>n\<bar> < 2 ^ 53"
  shows "round_to_double (n * 2 ^ min_exp) 0 = whole n"
proof (cases "n = 0")
  case True
  then show ?thesis by (simp add: round_to_double_zero whole_def)
next
  case False
  have small: "\<bar>n * 2 ^ min_exp\<bar> < 2 ^ (53 + min_exp)"
    using assms by (simp add: abs_mult power_add)
  have "round_to_double (n * 2 ^ min_exp) 0 = Double ((n * 2 ^ min_exp) div 2 ^ 0)"
    by (rule round_to_double_exact [where u = min_exp]) (use False small in simp_all)
  then show ?thesis by (simp add: whole_def)
qed

lemma pyfloat_of_int_whole: "\<bar>n\<bar> < 2 ^ 53 \<Longrightarrow> pyfloat_of_int n = whole n"
  by (simp add: pyfloat_of_int_def round_to_double_whole)

lemma fadd_whole: "\<bar>a + b\<bar> < 2 ^ 53 \<Longrightarrow> fadd (whole a) (whole b) = whole (a + b)"
  using round_to_double_whole [of "a + b"] by (simp add: whole_def distrib_right)

lemma fsub_whole: "\<bar>a - b\<bar> < 2 ^ 53 \<Longrightarrow> fsub (whole a) (whole b) = whole (a - b)"
  using round_to_double_whole [of "a - b"]
  by (simp add: fsub_def fneg_def whole_def left_diff_distrib)

lemma fmul_whole:
  assumes "a \<noteq> 0" and "b \<noteq> 0" and "\<bar>a * b\<bar> < 2 ^ 53"
  shows "fmul (whole a) (whole b) = whole (a * b)"
proof -
  let ?K = "(a * 2 ^ min_exp) * (b * 2 ^ min_exp)"
  have K: "?K = (a * b) * 2 ^ (min_exp + min_exp)"
    by (simp add: mult.assoc mult.left_commute power_add)
  have small: "\<bar>?K\<bar> < 2 ^ (53 + (min_exp + min_exp))"
  proof -
    have "\<bar>?K\<bar> = \<bar>a * b\<bar> * 2 ^ (min_exp + min_exp)"
      unfolding K by (simp add: abs_mult del: power_add)
    also have "\<dots> < 2 ^ 53 * 2 ^ (min_exp + min_exp)"
      by (intro mult_strict_right_mono assms(3)) simp
    also have "\<dots> = 2 ^ (53 + (min_exp + min_exp))"
      by (simp only: power_add)
    finally show ?thesis .
  qed
  have "round_to_double ?K min_exp = Double (?K div 2 ^ min_exp)"
    by (rule round_to_double_exact [where u = "min_exp + min_exp"])
      (use assms small in \<open>simp_all add: K\<close>)
  moreover have "?K div 2 ^ min_exp = (a * b) * 2 ^ min_exp"
  proof -
    have "?K = 2 ^ min_exp * ((a * b) * 2 ^ min_exp)"
      by (simp add: mult.assoc mult.left_commute)
    then show ?thesis
      by (metis nonzero_mult_div_cancel_left power_not_zero zero_neq_numeral)
  qed
  ultimately show ?thesis
    using assms(1,2) by (simp add: fmul_def whole_def is_zero_def is_inf_def)
qed

lemma flt_whole: "flt (whole a) (whole b) \<longleftrightarrow> a < b"
  by (simp add: whole_def)

lemma feq_whole: "feq (whole a) (whole b) \<longleftrightarrow> a = b"
  by (auto simp add: whole_def feq_def is_zero_def)

lemma truthy_whole: "truthy (whole a) \<longleftrightarrow> a \<noteq> 0"
  by (simp add: whole_def truthy_def is_zero_def)


lemma flt_zero_truthy: "flt (whole 0) y \<Longrightarrow> truthy y"
  by (cases y) (simp_all add: whole_def truthy_def is_zero_def)

lemma flt_not_feq: "flt x y \<Longrightarrow> \<not> feq y x"
  by (cases x; cases y) (auto simp add: feq_def is_zero_def)

lemma round_to_double_negative:
  assumes "K < 0"
  shows "round_to_double K 0 = Minus_inf \<or> (\<exists>k<0. round_to_double K 0 = Double k)"
proof -
  define s where "s = bit_length (nat \<bar>K\<bar>) - 53"
  define m where "m = round_half_even_shift K s"
  have pos: "0 < nat \<bar>K\<bar>" using assms by simp
  have m: "m \<le> - 1"
  proof (cases "s = 0")
    case True
    then show ?thesis
      using assms by (simp add: m_def round_half_even_shift_def)
  next
    case False
    then have bl: "bit_length (nat \<bar>K\<bar>) = s + 53" by (simp add: s_def)
    from bit_length_bounds [OF pos] have "(2::int) ^ (s + 52) \<le> \<bar>K\<bar>"
      by (simp add: bl add.commute)
    moreover have "(2::int) * 2 ^ s \<le> 2 ^ (s + 52)"
    proof -
      have "(2::int) ^ Suc s \<le> 2 ^ (s + 52)" by (rule power_increasing) simp_all
      then show ?thesis by simp
    qed
    ultimately have "K \<le> - 2 * 2 ^ s" using assms by simp
    then have "K div 2 ^ s \<le> (- 2 * 2 ^ s) div 2 ^ s"
      by (rule zdiv_mono1) simp
    moreover have "(- 2 * 2 ^ s) div 2 ^ s = (- 2::int)"
      by (rule nonzero_mult_div_cancel_right) simp
    ultimately have q: "K div 2 ^ s \<le> - 2" by (simp only:)
    show ?thesis
      unfolding m_def round_half_even_shift_def Let_def using q by simp
  qed
  have "m * 2 ^ s \<le> m * 1"
    using m by (intro mult_left_mono_neg) simp_all
  with m have k: "m * 2 ^ s \<le> - 1" by linarith
  have "round_to_double K 0 =
     (let k = m * 2 ^ s
      in if 2 ^ (1024 + min_exp) \<le> k then Plus_inf
         else if k \<le> - (2 ^ (1024 + min_exp)) then Minus_inf
         else if k = 0 then (if K < 0 then Minus_zero else Double 0)
         else Double k)"
    by (simp add: round_to_double_def s_def m_def Let_def)
  moreover have "\<not> (2::int) ^ (1024 + min_exp) \<le> m * 2 ^ s"
  proof -
    have "(0::int) < 2 ^ (1024 + min_exp)" by simp
    with k show ?thesis by linarith
  qed
  ultimately show ?thesis
    using k by (auto simp add: Let_def)
qed

lemma fsub_negative:
  assumes "flt x y"
  shows "flt (fsub x y) (Double 0)"
proof (cases x)
  case (Double a)
  show ?thesis
  proof (cases y)
    case (Double b)
    with \<open>x = Double a\<close> assms have ab: "a < b" by simp
    show ?thesis
    proof (cases "b = 0")
      case True
      with ab show ?thesis
        by (simp add: \<open>x = Double a\<close> \<open>y = Double b\<close> fsub_def fneg_def)
    next
      case False
      from ab have "a + - b < 0" by simp
      from round_to_double_negative [OF this] False show ?thesis
        by (auto simp add: \<open>x = Double a\<close> \<open>y = Double b\<close> fsub_def fneg_def)
    qed
  next
    case Minus_zero
    with \<open>x = Double a\<close> assms have "a + 0 < 0" by simp
    from round_to_double_negative [OF this] show ?thesis
      by (auto simp add: \<open>x = Double a\<close> Minus_zero fsub_def fneg_def)
  qed (use assms \<open>x = Double a\<close> in \<open>simp_all add: fsub_def fneg_def\<close>)
next
  case Minus_zero
  then show ?thesis
    using assms by (cases y) (simp_all add: fsub_def fneg_def)
next
  case Plus_inf
  then show ?thesis
    using assms by (cases y) (simp_all add: fsub_def fneg_def)
next
  case Minus_inf
  then show ?thesis
    using assms by (cases y) (simp_all add: fsub_def fneg_def)
next
  case Nan
  then show ?thesis using assms by simp
qed

lemma round_to_double_dbl:
  assumes "M \<noteq> 0" and "- int min_exp \<le> e"
    and "s = bit_length (nat \<bar>M\<bar>) - 53"
    and "m = round_half_even_shift M s"
    and "m \<noteq> 0" and "\<bar>m\<bar> < 2 ^ 54" and "e + int s \<le> 969"
  shows "round_to_double (M * 2 ^ nat (e + int min_exp)) 0 = dbl m (e + int s)"
proof -
  define n where "n = nat (e + int min_exp)"
  have en: "e + int min_exp = int n" using assms(2) by (simp add: n_def)
  have exp: "nat (e + int s + int min_exp) = s + n"
    using en by simp
  have "s + n + 54 \<le> 1024 + min_exp"
    using assms(7) en by simp
  then have "(2::int) ^ (s + n + 54) \<le> 2 ^ (1024 + min_exp)"
    by (rule power_increasing) simp
  moreover have "\<bar>m * 2 ^ (s + n)\<bar> < 2 ^ 54 * 2 ^ (s + n)"
  proof -
    have "\<bar>m * 2 ^ (s + n)\<bar> = \<bar>m\<bar> * 2 ^ (s + n)" by (simp add: abs_mult)
    also have "\<dots> < 2 ^ 54 * 2 ^ (s + n)"
      using assms(6) by (intro mult_strict_right_mono) simp_all
    finally show ?thesis .
  qed
  moreover have "(2::int) ^ 54 * 2 ^ (s + n) = 2 ^ (s + n + 54)"
    by (simp add: power_add)
  ultimately have bound: "\<bar>m * 2 ^ (s + n)\<bar> < 2 ^ (1024 + min_exp)" by linarith
  have nz: "m * 2 ^ (s + n) \<noteq> 0" using assms(5) by simp
  have "round_to_double (M * 2 ^ n) 0 =
     (let k = m * 2 ^ (s + n - 0)
      in if 2 ^ (1024 + min_exp) \<le> k then Plus_inf
         else if k \<le> - (2 ^ (1024 + min_exp)) then Minus_inf
         else if k = 0 then (if M < 0 then Minus_zero else Double 0)
         else Double k)"
    using round_to_double_scaled [OF assms(1), of 0 n]
    by (simp add: Let_def assms(3,4))
  also have "\<dots> = Double (m * 2 ^ (s + n))"
    using bound nz by (auto simp add: Let_def)
  finally show ?thesis
    by (simp add: dbl_def exp n_def)
qed

lemma fadd_dbl:
  "fadd (dbl m1 e) (dbl m2 e) = round_to_double ((m1 + m2) * 2 ^ nat (e + int min_exp)) 0"
  by (simp add: dbl_def distrib_right)

lemma fsub_dbl:
  "m2 \<noteq> 0 \<Longrightarrow>
   fsub (dbl m1 e) (dbl m2 e) = round_to_double ((m1 - m2) * 2 ^ nat (e + int min_exp)) 0"
  by (simp add: dbl_def fsub_def fneg_def left_diff_distrib)

lemma flt_dbl: "flt (dbl m1 e) (dbl m2 e) \<longleftrightarrow> m1 < m2"
  by (simp add: dbl_def)

lemma dbl_eq_iff: "dbl m1 e = dbl m2 e \<longleftrightarrow> m1 = m2"
  by (simp add: dbl_def)

lemma dbl_rescale:
  assumes "- int min_exp \<le> e"
  shows "dbl m (e + 1) = dbl (2 * m) e"
proof -
  have "nat (e + 1 + int min_exp) = Suc (nat (e + int min_exp))"
    using assms by simp
  then show ?thesis by (simp add: dbl_def)
qed

lemma whole_dbl: "whole n = dbl n 0"
  by (simp add: whole_def dbl_def)

text \<open>0.9 - 0.2 = 0.7 and 0.2 + 0.7 = 0.8999999999999999, all at exponent -54.\<close>

lemma example_sub: "fsub (dbl 16212958658533786 (- 54)) (dbl 3602879701896397 (- 54))
    = dbl 12610078956637388 (- 54)"
proof -
  have "round_to_double (12610078956637389 * 2 ^ nat (- 54 + int min_exp)) 0
      = dbl 6305039478318694 (- 54 + int 1)"
    by (rule round_to_double_dbl [where s = 1])
      (simp_all add: min_exp_def bit_length.simps round_half_even_shift_def)
  then show ?thesis
    using dbl_rescale [of "- 54" 6305039478318694]
    by (simp add: fsub_dbl min_exp_def)
qed

lemma example_add: "fadd (dbl 3602879701896397 (- 54)) (dbl 12610078956637388 (- 54))
    = dbl 16212958658533784 (- 54)"
proof -
  have "round_to_double (16212958658533785 * 2 ^ nat (- 54 + int min_exp)) 0
      = dbl 8106479329266892 (- 54 + int 1)"
    by (rule round_to_double_dbl [where s = 1])
      (simp_all add: min_exp_def bit_length.simps round_half_even_shift_def)
  then show ?thesis
    using dbl_rescale [of "- 54" 8106479329266892]
    by (simp add: fadd_dbl min_exp_def)
qed

section \<open>Lemmas about the submission loop and the checks\<close>

lemma send_order_returns:
  "gateways s g = Some gw \<Longrightarrow> gw_send_order gw (sent_orders gw) req = Inr orderid \<Longrightarrow>
   send_order s req g =
     (Inr orderid,
      s\<lparr>gateways := (gateways s)(g \<mapsto> gw\<lparr>sent_orders := sent_orders gw @ [req]\<rparr>),
        logs := logs s @ [\<lparr>log_gateway_name = Some g,
                          log_msg = Send_order_msg orderid req\<rparr>]\<rparr>)"
  by (simp add: send_order_def get_gateway_def engine_log_def Let_def)

lemma send_order_raises:
  "gateways s g = Some gw \<Longrightarrow> gw_send_order gw (sent_orders gw) req = Inl e \<Longrightarrow>
   send_order s req g =
     (Inl e, s\<lparr>gateways := (gateways s)(g \<mapsto> gw\<lparr>sent_orders := sent_orders gw @ [req]\<rparr>)\<rparr>)"
  by (simp add: send_order_def get_gateway_def Let_def)


lemma send_order_sent:
  "gateways s g = Some gw \<Longrightarrow>
   gateways (snd (send_order s req g)) g = Some (gw\<lparr>sent_orders := sent_orders gw @ [req]\<rparr>)"
  by (cases "gw_send_order gw (sent_orders gw) req")
    (simp_all add: send_order_returns send_order_raises)


lemma send_reqs_one:
  "gateways s g = Some gw \<Longrightarrow>
   send_reqs s [r] g [] =
     (case gw_send_order gw (sent_orders gw) r of
        Inl e \<Rightarrow>
          (Inl e, s\<lparr>gateways := (gateways s)(g \<mapsto> gw\<lparr>sent_orders := sent_orders gw @ [r]\<rparr>)\<rparr>)
      | Inr orderid \<Rightarrow>
          (Inr [orderid],
           s\<lparr>gateways := (gateways s)(g \<mapsto> gw\<lparr>sent_orders := sent_orders gw @ [r]\<rparr>),
             logs := logs s @ [\<lparr>log_gateway_name = Some g,
                               log_msg = Send_order_msg orderid r\<rparr>]\<rparr>))"
  by (cases "gw_send_order gw (sent_orders gw) r")
    (simp_all add: send_order_returns send_order_raises)


lemma send_reqs_two_returns:
  "gateways s g = Some gw \<Longrightarrow>
   gw_send_order gw (sent_orders gw) r1 = Inr id1 \<Longrightarrow>
   gw_send_order gw (sent_orders gw @ [r1]) r2 = Inr id2 \<Longrightarrow>
   send_reqs s [r1, r2] g [] =
     (Inr [id1, id2],
      s\<lparr>gateways := (gateways s)(g \<mapsto> gw\<lparr>sent_orders := sent_orders gw @ [r1, r2]\<rparr>),
        logs := logs s @
          [\<lparr>log_gateway_name = Some g, log_msg = Send_order_msg id1 r1\<rparr>,
           \<lparr>log_gateway_name = Some g, log_msg = Send_order_msg id2 r2\<rparr>]\<rparr>)"
  by (simp add: send_order_returns)

text \<open>
  Whatever the gateway answers, it is called with a prefix of the requests, in order, and
  with the first one whenever there is one.
\<close>

lemma send_reqs_sent:
  "gateways s g = Some gw \<Longrightarrow>
   \<exists>gw' n. gateways (snd (send_reqs s reqs g ids)) g = Some gw'
        \<and> sent_orders gw' = sent_orders gw @ take n reqs
        \<and> (reqs \<noteq> [] \<longrightarrow> 0 < n)"
proof (induction reqs arbitrary: s gw ids)
  case Nil
  then show ?case by simp
next
  case (Cons r reqs)
  show ?case
  proof (cases "gw_send_order gw (sent_orders gw) r")
    case (Inl e)
    have "gateways (snd (send_reqs s (r # reqs) g ids)) g
            = Some (gw\<lparr>sent_orders := sent_orders gw @ [r]\<rparr>)"
      by (simp add: send_order_raises [OF Cons.prems Inl])
    then show ?thesis
      by (intro exI [of _ "gw\<lparr>sent_orders := sent_orders gw @ [r]\<rparr>"] exI [of _ 1]) simp
  next
    case (Inr orderid)
    let ?s1 = "snd (send_order s r g)"
    have step: "gateways ?s1 g = Some (gw\<lparr>sent_orders := sent_orders gw @ [r]\<rparr>)"
      by (rule send_order_sent [OF Cons.prems])
    have run: "send_reqs s (r # reqs) g ids = send_reqs ?s1 reqs g (ids @ [orderid])"
      by (simp add: send_order_returns [OF Cons.prems Inr])
    from Cons.IH [OF step, of "ids @ [orderid]"]
    obtain gw' n where "gateways (snd (send_reqs ?s1 reqs g (ids @ [orderid]))) g = Some gw'"
      and "sent_orders gw' = (sent_orders gw @ [r]) @ take n reqs"
      by auto
    then show ?thesis
      unfolding run by (intro exI [of _ gw'] exI [of _ "Suc n"]) simp
  qed
qed

lemma taker_reqs_missing_market_data:
  "ticks s vt_symbol = None \<or> contracts s vt_symbol = None \<Longrightarrow>
   taker_reqs s vt_symbol volume direction offset gateway_name
     = Inl ''Tick or contract data is none''"
  by (auto simp add: taker_reqs_def get_tick_def get_contract_def get_df_def
      split: option.splits)


lemma taker_reqs_insufficient_volume:
  "ticks s vt_symbol = Some tick \<Longrightarrow> contracts s vt_symbol = Some contract \<Longrightarrow>
   positions s (position_key gateway_name (contract_vt_symbol contract)
                  (if direction = LONG then SHORT else LONG)) = Some position \<Longrightarrow>
   flt (fsub (position_volume position) (position_frozen position)) volume \<Longrightarrow>
   taker_reqs s vt_symbol volume direction CLOSE gateway_name = Inl ''No enough close volume''"
  by (cases "direction = LONG")
    (simp_all add: taker_reqs_def get_tick_def get_contract_def get_position_def get_df_def
      Let_def)

text \<open>The requests the loop is given, case by case, when no check aborts the intent.\<close>

lemma taker_reqs_open:
  "ticks s vt_symbol = Some tick \<Longrightarrow> contracts s vt_symbol = Some contract \<Longrightarrow>
   offset \<noteq> CLOSE \<Longrightarrow>
   taker_reqs s vt_symbol volume direction offset gateway_name =
     Inr [\<lparr>req_symbol = contract_symbol contract, req_exchange = contract_exchange contract,
           req_price = (if direction = LONG
                        then fadd (ask_price_1 tick) (fmul (pricetick contract) (pyfloat_of_int 2))
                        else fsub (bid_price_1 tick) (fmul (pricetick contract) (pyfloat_of_int 2))),
           req_volume = volume, req_direction = direction, req_offset = offset,
           req_type = LIMIT\<rparr>]"
  by (simp add: taker_reqs_def get_tick_def get_contract_def get_df_def Let_def)

lemma taker_reqs_close:
  "ticks s vt_symbol = Some tick \<Longrightarrow> contracts s vt_symbol = Some contract \<Longrightarrow>
   positions s (position_key gateway_name (contract_vt_symbol contract)
                  (if direction = LONG then SHORT else LONG)) = Some position \<Longrightarrow>
   \<not> flt (fsub (position_volume position) (position_frozen position)) volume \<Longrightarrow>
   taker_reqs s vt_symbol volume direction CLOSE gateway_name =
     Inr (let req = \<lparr>req_symbol = contract_symbol contract,
                   req_exchange = contract_exchange contract,
                   req_price = (if direction = LONG
                        then fadd (ask_price_1 tick) (fmul (pricetick contract) (pyfloat_of_int 2))
                        else fsub (bid_price_1 tick) (fmul (pricetick contract) (pyfloat_of_int 2))),
                   req_volume = volume, req_direction = direction, req_offset = CLOSE,
                   req_type = LIMIT\<rparr>
        in if contract_exchange contract = SHFE \<or> contract_exchange contract = INE then
             (if \<not> truthy (yd_volume position) then [req\<lparr>req_offset := CLOSETODAY\<rparr>]
              else if feq (position_volume position) (yd_volume position)
                then [req\<lparr>req_offset := CLOSEYESTERDAY\<rparr>]
              else [req\<lparr>req_volume := fsub volume (fsub (yd_volume position)
                                                         (position_frozen position)),
                        req_offset := CLOSETODAY\<rparr>,
                    req\<lparr>req_volume := fsub (yd_volume position) (position_frozen position),
                        req_offset := CLOSEYESTERDAY\<rparr>])
           else [req])"
  by (cases "direction = LONG")
    (simp_all add: taker_reqs_def get_tick_def get_contract_def get_position_def get_df_def
      Let_def)

lemma example_engine_lookups:
  "ticks (example_engine ex ps) ''X'' = Some example_tick"
  "contracts (example_engine ex ps) ''X'' = Some (example_contract ex)"
  "gateways (example_engine ex ps) = [''G1'' \<mapsto> example_gateway, ''G3'' \<mapsto> failing_gateway]"
  "logs (example_engine ex ps) = [\<lparr>log_gateway_name = None, log_msg = Text ''Engine inited''\<rparr>]"
proof -
  have pos: "\<And>s. ticks (process_events s (map EVENT_POSITION ps)) = ticks s
      \<and> contracts (process_events s (map EVENT_POSITION ps)) = contracts s
      \<and> gateways (process_events s (map EVENT_POSITION ps)) = gateways s
      \<and> logs (process_events s (map EVENT_POSITION ps)) = logs s"
    by (induction ps) (simp_all add: process_position_event_def)
  show "ticks (example_engine ex ps) ''X'' = Some example_tick"
    "contracts (example_engine ex ps) ''X'' = Some (example_contract ex)"
    "gateways (example_engine ex ps) = [''G1'' \<mapsto> example_gateway, ''G3'' \<mapsto> failing_gateway]"
    "logs (example_engine ex ps) = [\<lparr>log_gateway_name = None, log_msg = Text ''Engine inited''\<rparr>]"
    by (simp_all add: example_engine_def pos init_engine_def process_tick_event_def
        process_contract_event_def get_contract_def get_df_def example_tick_def
        example_contract_def)
qed

lemma example_engine_gateway:
  "gateways (example_engine ex ps) ''G1'' = Some example_gateway"
  "gateways (example_engine ex ps) ''G2'' = None"
  "gateways (example_engine ex ps) ''G3'' = Some failing_gateway"
  by (simp_all add: example_engine_lookups)

lemma example_engine_position:
  "positions (example_engine ex [example_position d v f yd]) (position_key ''G1'' ''X'' d)
     = Some (example_position d v f yd)"
  by (simp add: example_engine_def process_position_event_def example_position_def)

lemma example_engine_positions:
  "positions (example_engine ex [example_position LONG v f yd, example_position SHORT v' f' yd'])
     (position_key ''G1'' ''X'' LONG) = Some (example_position LONG v f yd)"
  "positions (example_engine ex [example_position LONG v f yd, example_position SHORT v' f' yd'])
     (position_key ''G1'' ''X'' SHORT) = Some (example_position SHORT v' f' yd')"
  by (simp_all add: example_engine_def process_position_event_def example_position_def
      position_key_def)

lemma example_price:
  "fadd (whole 101) (fmul (whole 1) (pyfloat_of_int 2)) = whole 103"
  "fsub (whole 99) (fmul (whole 1) (pyfloat_of_int 2)) = whole 97"
  by (simp_all add: pyfloat_of_int_whole fmul_whole fadd_whole fsub_whole)

section \<open>Aborted intents and single-leg closes\<close>

text \<open>
  Claim C3. When the quote or the contract of a symbol is not cached, each of the four
  trading intents (buy, sell, short, cover) returns the one-element list holding the empty
  identifier, logs the missing-market-data message under the gateway's name, and leaves
  every gateway as it was: no submission call is made.
\<close>

theorem missing_market_data_aborts:
  assumes "ticks s vt_symbol = None \<or> contracts s vt_symbol = None"
  shows "let aborted = (Inr [''''], s\<lparr>logs := logs s @
                 [\<lparr>log_gateway_name = Some gateway_name,
                   log_msg = Text ''Tick or contract data is none''\<rparr>]\<rparr>)
         in buy s vt_symbol volume gateway_name = aborted
          \<and> sell s vt_symbol volume gateway_name = aborted
          \<and> short s vt_symbol volume gateway_name = aborted
          \<and> cover s vt_symbol volume gateway_name = aborted
          \<and> gateways (snd aborted) = gateways s"
  using assms
  by (simp add: buy_def sell_def short_def cover_def send_taker_order_def
      taker_reqs_missing_market_data engine_log_def Let_def)

text \<open>
  C3 at an engine that has seen a tick for \<^verbatim>\<open>X\<close> and no contract: buying 5 gives the
  empty identifier and one more log entry.
\<close>

theorem missing_market_data_aborts_witness:
  "contracts (process_event (init_engine [''G1'' \<mapsto> example_gateway]) (EVENT_TICK example_tick))
     ''X'' = None
   \<and> buy (process_event (init_engine [''G1'' \<mapsto> example_gateway]) (EVENT_TICK example_tick))
        ''X'' (whole 5) ''G1''
     = (Inr [''''],
        \<lparr>ticks = [''X'' \<mapsto> example_tick], orders = Map.empty, trades = Map.empty,
         accounts = Map.empty, contracts = Map.empty, positions = Map.empty,
         active_orders = Map.empty, gateways = [''G1'' \<mapsto> example_gateway],
         logs = [\<lparr>log_gateway_name = None, log_msg = Text ''Engine inited''\<rparr>,
                 \<lparr>log_gateway_name = Some ''G1'',
                  log_msg = Text ''Tick or contract data is none''\<rparr>]\<rparr>)"
proof -
  let ?s = "process_event (init_engine [''G1'' \<mapsto> example_gateway]) (EVENT_TICK example_tick)"
  have h: "ticks ?s ''X'' = None \<or> contracts ?s ''X'' = None"
    by (simp add: init_engine_def process_tick_event_def)
  show ?thesis
    using missing_market_data_aborts [OF h, where volume = "whole 5" and gateway_name = "''G1''"]
    by (simp add: Let_def init_engine_def process_tick_event_def example_tick_def)
qed

text \<open>
  Claim C4. A close intent (offset close; \<open>sell\<close> is the short one, \<open>cover\<close> the long one)
  whose opposing position has less available volume than requested, by the engine's own
  test \<^verbatim>\<open>position.volume - position.frozen < volume\<close> on floats, returns the
  one-element list holding the empty identifier, logs the insufficient-close-volume
  message and calls no gateway. Nothing is assumed of the contract's exchange, so this
  holds with and without position aging. The quote and the contract are cached, since the
  position is looked up under the contract's symbol id.
\<close>

theorem insufficient_close_volume_aborts:
  assumes "ticks s vt_symbol = Some tick"
    and "contracts s vt_symbol = Some contract"
    and "positions s (position_key gateway_name (contract_vt_symbol contract)
                        (if direction = LONG then SHORT else LONG)) = Some position"
    and "flt (fsub (position_volume position) (position_frozen position)) volume"
  shows "send_taker_order s vt_symbol volume direction CLOSE gateway_name =
           (Inr [''''], s\<lparr>logs := logs s @ [\<lparr>log_gateway_name = Some gateway_name,
                                             log_msg = Text ''No enough close volume''\<rparr>]\<rparr>)
         \<and> gateways (snd (send_taker_order s vt_symbol volume direction CLOSE gateway_name))
             = gateways s"
  by (simp add: send_taker_order_def taker_reqs_insufficient_volume [OF assms] engine_log_def)

text \<open>
  C4 at a long position of 10 with 8 frozen: selling 5 is refused.
\<close>

theorem insufficient_close_volume_aborts_witness:
  "flt (fsub (position_volume (example_position LONG (whole 10) (whole 8) (whole 4)))
             (position_frozen (example_position LONG (whole 10) (whole 8) (whole 4)))) (whole 5)
   \<and> sell (example_engine DCE [example_position LONG (whole 10) (whole 8) (whole 4)])
        ''X'' (whole 5) ''G1''
     = (Inr [''''], (example_engine DCE [example_position LONG (whole 10) (whole 8) (whole 4)])
                 \<lparr>logs := [\<lparr>log_gateway_name = None, log_msg = Text ''Engine inited''\<rparr>,
                           \<lparr>log_gateway_name = Some ''G1'',
                            log_msg = Text ''No enough close volume''\<rparr>]\<rparr>)"
proof -
  let ?p = "example_position LONG (whole 10) (whole 8) (whole 4)"
  let ?s = "example_engine DCE [?p]"
  have t: "ticks ?s ''X'' = Some example_tick"
    and c: "contracts ?s ''X'' = Some (example_contract DCE)"
    by (simp_all add: example_engine_lookups)
  have p: "positions ?s (position_key ''G1'' (contract_vt_symbol (example_contract DCE))
                          (if SHORT = LONG then SHORT else LONG)) = Some ?p"
    by (simp add: example_engine_position example_contract_def)
  have v: "flt (fsub (position_volume ?p) (position_frozen ?p)) (whole 5)"
    by (simp add: example_position_def fsub_whole flt_whole)
  show ?thesis
    using v insufficient_close_volume_aborts [OF t c p v]
    by (simp add: sell_def example_engine_lookups)
qed

text \<open>
  The availability test is the float test. With total volume 0.5 and frozen 0.1 the
  subtraction rounds to 0.4, so a close of 0.4 is not refused, although the exact
  difference of the two doubles is below the double 0.4. Here 0.5 is
  \<open>dbl 18014398509481984 (- 55)\<close>, 0.1 is \<open>dbl 3602879701896397 (- 55)\<close> and 0.4 is
  \<open>dbl 7205759403792794 (- 54)\<close>.
\<close>

lemma availability_rounds:
  "fsub (dbl 18014398509481984 (- 55)) (dbl 3602879701896397 (- 55))
     = dbl 7205759403792794 (- 54)"
  "\<not> flt (fsub (dbl 18014398509481984 (- 55)) (dbl 3602879701896397 (- 55)))
          (dbl 7205759403792794 (- 54))"
proof -
  have "round_to_double (14411518807585587 * 2 ^ nat (- 55 + int min_exp)) 0
      = dbl 7205759403792794 (- 55 + int 1)"
    by (rule round_to_double_dbl [where s = 1])
      (simp_all add: min_exp_def bit_length.simps round_half_even_shift_def)
  then show sub: "fsub (dbl 18014398509481984 (- 55)) (dbl 3602879701896397 (- 55))
     = dbl 7205759403792794 (- 54)"
    by (simp add: fsub_dbl)
  show "\<not> flt (fsub (dbl 18014398509481984 (- 55)) (dbl 3602879701896397 (- 55)))
          (dbl 7205759403792794 (- 54))"
    by (simp add: sub flt_dbl)
qed

text \<open>
  Claim C6. On an exchange without position aging (neither SHFE nor INE), a close intent
  whose opposing position exists and passes the availability test, as it does when the
  available volume is at least the requested volume, submits exactly one request to the
  named gateway: offset close, the requested volume, no split. The outcome is the
  gateway's: the one identifier it returned, or the exception it raised.
\<close>

theorem plain_close_single_leg:
  assumes "ticks s vt_symbol = Some tick"
    and "contracts s vt_symbol = Some contract"
    and "positions s (position_key gateway_name (contract_vt_symbol contract)
                        (if direction = LONG then SHORT else LONG)) = Some position"
    and "\<not> flt (fsub (position_volume position) (position_frozen position)) volume"
    and "contract_exchange contract \<noteq> SHFE"
    and "contract_exchange contract \<noteq> INE"
    and "gateways s gateway_name = Some gw"
  shows "send_taker_order s vt_symbol volume direction CLOSE gateway_name =
     (let req = \<lparr>req_symbol = contract_symbol contract,
                 req_exchange = contract_exchange contract,
                 req_price = (if direction = LONG
                      then fadd (ask_price_1 tick) (fmul (pricetick contract) (pyfloat_of_int 2))
                      else fsub (bid_price_1 tick) (fmul (pricetick contract) (pyfloat_of_int 2))),
                 req_volume = volume, req_direction = direction, req_offset = CLOSE,
                 req_type = LIMIT\<rparr>;
          called = (gateways s)(gateway_name \<mapsto> gw\<lparr>sent_orders := sent_orders gw @ [req]\<rparr>)
      in case gw_send_order gw (sent_orders gw) req of
           Inr orderid \<Rightarrow>
             (Inr [orderid],
              s\<lparr>gateways := called,
                logs := logs s @ [\<lparr>log_gateway_name = Some gateway_name,
                                  log_msg = Send_order_msg orderid req\<rparr>]\<rparr>)
         | Inl e \<Rightarrow> (Inl e, s\<lparr>gateways := called\<rparr>))"
  using assms(5,6)
  by (simp add: send_taker_order_def taker_reqs_close [OF assms(1,2,3,4)]
      send_reqs_one [OF assms(7)] Let_def split: sum.splits del: send_reqs.simps)

text \<open>
  C6 on DCE with a long position of 10, 1 frozen: selling 5 submits one request with
  offset close and volume 5.
\<close>

theorem plain_close_single_leg_witness:
  "\<not> flt (fsub (position_volume (example_position LONG (whole 10) (whole 1) (whole 4)))
               (position_frozen (example_position LONG (whole 10) (whole 1) (whole 4)))) (whole 5)
   \<and> contract_exchange (example_contract DCE) \<noteq> SHFE
   \<and> contract_exchange (example_contract DCE) \<noteq> INE
   \<and> fst (sell (example_engine DCE [example_position LONG (whole 10) (whole 1) (whole 4)])
            ''X'' (whole 5) ''G1'') = Inr [''G1.i'']
   \<and> gateways (snd (sell (example_engine DCE [example_position LONG (whole 10) (whole 1) (whole 4)])
                      ''X'' (whole 5) ''G1'')) ''G1''
     = Some (example_gateway\<lparr>sent_orders :=
          [\<lparr>req_symbol = ''X'', req_exchange = DCE, req_price = whole 97, req_volume = whole 5,
            req_direction = SHORT, req_offset = CLOSE, req_type = LIMIT\<rparr>]\<rparr>)"
proof -
  let ?p = "example_position LONG (whole 10) (whole 1) (whole 4)"
  let ?s = "example_engine DCE [?p]"
  have t: "ticks ?s ''X'' = Some example_tick"
    and c: "contracts ?s ''X'' = Some (example_contract DCE)"
    and g: "gateways ?s ''G1'' = Some example_gateway"
    by (simp_all add: example_engine_lookups)
  have p: "positions ?s (position_key ''G1'' (contract_vt_symbol (example_contract DCE))
                          (if SHORT = LONG then SHORT else LONG)) = Some ?p"
    by (simp add: example_engine_position example_contract_def)
  have v: "\<not> flt (fsub (position_volume ?p) (position_frozen ?p)) (whole 5)"
    by (simp add: example_position_def fsub_whole flt_whole)
  have e1: "contract_exchange (example_contract DCE) \<noteq> SHFE"
    and e2: "contract_exchange (example_contract DCE) \<noteq> INE"
    by (simp_all add: example_contract_def)
  have vals: "bid_price_1 example_tick = whole 99" "pricetick (example_contract DCE) = whole 1"
    "contract_symbol (example_contract DCE) = ''X''"
    "contract_exchange (example_contract DCE) = DCE"
    "sent_orders example_gateway = []"
    "\<And>sent req. gw_send_order example_gateway sent req
        = Inr (''G1.'' @ replicate (Suc (length sent)) (CHR ''i''))"
    by (simp_all add: example_tick_def example_contract_def example_gateway_def)
  show ?thesis
    using v e1 e2 plain_close_single_leg [OF t c p v e1 e2 g]
    by (simp add: sell_def Let_def vals example_price example_engine_lookups)
qed

text \<open>
  Claim C5. On a position-aging exchange (SHFE or INE), for a close intent that passes
  the position and availability checks: when the opposing position's yesterday's-volume
  is 0, exactly one request is submitted, with offset close-today and the full requested
  volume; when it is not 0 and the total volume equals it, exactly one request is
  submitted, with offset close-yesterday and the full requested volume. The cases are
  the engine's, in its order: yesterday's-volume is tested first.
\<close>

theorem aging_close_single_leg:
  assumes "ticks s vt_symbol = Some tick"
    and "contracts s vt_symbol = Some contract"
    and "positions s (position_key gateway_name (contract_vt_symbol contract)
                        (if direction = LONG then SHORT else LONG)) = Some position"
    and "\<not> flt (fsub (position_volume position) (position_frozen position)) volume"
    and "contract_exchange contract = SHFE \<or> contract_exchange contract = INE"
    and "gateways s gateway_name = Some gw"
    and "\<not> truthy (yd_volume position)
         \<or> (truthy (yd_volume position) \<and> feq (position_volume position) (yd_volume position))"
  shows "send_taker_order s vt_symbol volume direction CLOSE gateway_name =
     (let req = \<lparr>req_symbol = contract_symbol contract,
                 req_exchange = contract_exchange contract,
                 req_price = (if direction = LONG
                      then fadd (ask_price_1 tick) (fmul (pricetick contract) (pyfloat_of_int 2))
                      else fsub (bid_price_1 tick) (fmul (pricetick contract) (pyfloat_of_int 2))),
                 req_volume = volume, req_direction = direction,
                 req_offset = (if truthy (yd_volume position) then CLOSEYESTERDAY else CLOSETODAY),
                 req_type = LIMIT\<rparr>;
          called = (gateways s)(gateway_name \<mapsto> gw\<lparr>sent_orders := sent_orders gw @ [req]\<rparr>)
      in case gw_send_order gw (sent_orders gw) req of
           Inr orderid \<Rightarrow>
             (Inr [orderid],
              s\<lparr>gateways := called,
                logs := logs s @ [\<lparr>log_gateway_name = Some gateway_name,
                                  log_msg = Send_order_msg orderid req\<rparr>]\<rparr>)
         | Inl e \<Rightarrow> (Inl e, s\<lparr>gateways := called\<rparr>))"
  using assms(5,7)
  by (auto simp add: send_taker_order_def taker_reqs_close [OF assms(1,2,3,4)]
      send_reqs_one [OF assms(6)] Let_def split: sum.splits simp del: send_reqs.simps)

text \<open>
  C5 at both cases: a short position of 10 that is all yesterday's is covered with
  close-yesterday, and one with no yesterday's volume with close-today.
\<close>

theorem aging_close_single_leg_witness:
  "\<not> flt (fsub (position_volume (example_position SHORT (whole 10) (whole 1) (whole 10)))
               (position_frozen (example_position SHORT (whole 10) (whole 1) (whole 10))))
          (whole 5)
   \<and> truthy (yd_volume (example_position SHORT (whole 10) (whole 1) (whole 10)))
   \<and> feq (position_volume (example_position SHORT (whole 10) (whole 1) (whole 10)))
         (yd_volume (example_position SHORT (whole 10) (whole 1) (whole 10)))
   \<and> \<not> truthy (yd_volume (example_position SHORT (whole 10) (whole 1) (whole 0)))
   \<and> gateways (snd (cover (example_engine SHFE [example_position SHORT (whole 10) (whole 1) (whole 10)])
                      ''X'' (whole 5) ''G1'')) ''G1''
     = Some (example_gateway\<lparr>sent_orders :=
          [\<lparr>req_symbol = ''X'', req_exchange = SHFE, req_price = whole 103, req_volume = whole 5,
            req_direction = LONG, req_offset = CLOSEYESTERDAY, req_type = LIMIT\<rparr>]\<rparr>)
   \<and> gateways (snd (cover (example_engine INE [example_position SHORT (whole 10) (whole 1) (whole 0)])
                      ''X'' (whole 5) ''G1'')) ''G1''
     = Some (example_gateway\<lparr>sent_orders :=
          [\<lparr>req_symbol = ''X'', req_exchange = INE, req_price = whole 103, req_volume = whole 5,
            req_direction = LONG, req_offset = CLOSETODAY, req_type = LIMIT\<rparr>]\<rparr>)"
proof -
  let ?p = "example_position SHORT (whole 10) (whole 1) (whole 10)"
  let ?s = "example_engine SHFE [?p]"
  let ?q = "example_position SHORT (whole 10) (whole 1) (whole 0)"
  let ?r = "example_engine INE [?q]"
  have t: "ticks ?s ''X'' = Some example_tick"
    and c: "contracts ?s ''X'' = Some (example_contract SHFE)"
    and g: "gateways ?s ''G1'' = Some example_gateway"
    and t': "ticks ?r ''X'' = Some example_tick"
    and c': "contracts ?r ''X'' = Some (example_contract INE)"
    and g': "gateways ?r ''G1'' = Some example_gateway"
    by (simp_all add: example_engine_lookups)
  have p: "positions ?s (position_key ''G1'' (contract_vt_symbol (example_contract SHFE))
                          (if LONG = LONG then SHORT else LONG)) = Some ?p"
    and p': "positions ?r (position_key ''G1'' (contract_vt_symbol (example_contract INE))
                          (if LONG = LONG then SHORT else LONG)) = Some ?q"
    by (simp_all add: example_engine_position example_contract_def)
  have v: "\<not> flt (fsub (position_volume ?p) (position_frozen ?p)) (whole 5)"
    and v': "\<not> flt (fsub (position_volume ?q) (position_frozen ?q)) (whole 5)"
    by (simp_all add: example_position_def fsub_whole flt_whole)
  have e: "contract_exchange (example_contract SHFE) = SHFE
           \<or> contract_exchange (example_contract SHFE) = INE"
    and e': "contract_exchange (example_contract INE) = SHFE
           \<or> contract_exchange (example_contract INE) = INE"
    by (simp_all add: example_contract_def)
  have yp: "truthy (yd_volume ?p)" "feq (position_volume ?p) (yd_volume ?p)"
    and yq: "\<not> truthy (yd_volume ?q)"
    by (simp_all add: example_position_def truthy_whole feq_whole)
  have y: "\<not> truthy (yd_volume ?p)
           \<or> (truthy (yd_volume ?p) \<and> feq (position_volume ?p) (yd_volume ?p))"
    and y': "\<not> truthy (yd_volume ?q)
           \<or> (truthy (yd_volume ?q) \<and> feq (position_volume ?q) (yd_volume ?q))"
    using yp yq by simp_all
  have vals: "ask_price_1 example_tick = whole 101"
    "\<And>ex. pricetick (example_contract ex) = whole 1"
    "\<And>ex. contract_symbol (example_contract ex) = ''X''"
    "\<And>ex. contract_exchange (example_contract ex) = ex"
    "sent_orders example_gateway = []"
    "\<And>sent req. gw_send_order example_gateway sent req
        = Inr (''G1.'' @ replicate (Suc (length sent)) (CHR ''i''))"
    by (simp_all add: example_tick_def example_contract_def example_gateway_def)
  show ?thesis
    using v yp yq aging_close_single_leg [OF t c p v e g y]
      aging_close_single_leg [OF t' c' p' v' e' g' y']
    by (simp add: cover_def Let_def vals example_price example_engine_lookups)
qed

section \<open>The two-leg close on a position-aging exchange\<close>

lemma whole_as_dbl: "whole n = dbl (n * 2 ^ 54) (- 54)"
proof -
  have "(2::int) ^ min_exp = 2 ^ 54 * 2 ^ nat (- 54 + int min_exp)"
    by (simp add: min_exp_def flip: power_add)
  then show ?thesis
    by (simp only: whole_def dbl_def mult.assoc)
qed

lemma fsub_zero_right: "fsub (Double k) (whole 0) = Double k"
  by (simp add: fsub_def fneg_def whole_def)

lemma fsub_dbl_zero_right: "fsub (dbl m e) (whole 0) = dbl m e"
  by (simp add: dbl_def fsub_zero_right)

lemma taker_reqs_mixed:
  assumes "ticks s vt_symbol = Some tick"
    and "contracts s vt_symbol = Some contract"
    and "contract_exchange contract = SHFE \<or> contract_exchange contract = INE"
    and "positions s (position_key gateway_name (contract_vt_symbol contract)
                        (if direction = LONG then SHORT else LONG)) = Some position"
    and "flt (whole 0) (yd_volume position)"
    and "flt (yd_volume position) (position_volume position)"
    and "\<not> flt (fsub (position_volume position) (position_frozen position)) volume"
  shows "taker_reqs s vt_symbol volume direction CLOSE gateway_name =
      Inr [\<lparr>req_symbol = contract_symbol contract,
             req_exchange = contract_exchange contract,
             req_price = (if direction = LONG
                      then fadd (ask_price_1 tick) (fmul (pricetick contract) (pyfloat_of_int 2))
                      else fsub (bid_price_1 tick) (fmul (pricetick contract) (pyfloat_of_int 2))),
             req_volume = fsub volume (fsub (yd_volume position) (position_frozen position)),
             req_direction = direction, req_offset = CLOSETODAY, req_type = LIMIT\<rparr>,
           \<lparr>req_symbol = contract_symbol contract,
             req_exchange = contract_exchange contract,
             req_price = (if direction = LONG
                      then fadd (ask_price_1 tick) (fmul (pricetick contract) (pyfloat_of_int 2))
                      else fsub (bid_price_1 tick) (fmul (pricetick contract) (pyfloat_of_int 2))),
             req_volume = fsub (yd_volume position) (position_frozen position),
             req_direction = direction, req_offset = CLOSEYESTERDAY, req_type = LIMIT\<rparr>]"
proof -
  have yd: "truthy (yd_volume position)"
    using assms(5) by (rule flt_zero_truthy)
  have ne: "\<not> feq (position_volume position) (yd_volume position)"
    using assms(6) by (rule flt_not_feq)
  show ?thesis
    using assms(3) yd ne
    by (auto simp add: taker_reqs_close [OF assms(1,2,4,7)] Let_def)
qed

text \<open>
  Claim C1, amended. On a position-aging exchange (SHFE or INE), a close intent whose
  opposing position has 0 < yesterday's-volume < total volume and passes the availability
  check produces exactly two order requests: a close-yesterday leg of volume
  yesterday's-volume minus frozen, and a close-today leg of volume requested volume minus
  that amount, both differences computed in floating point. The close-yesterday leg is
  constructed first; the close-today leg is appended to the request list first and
  submitted first, the close-yesterday leg is appended and submitted second, and when the
  gateway returns for both, the identifiers are returned in that order. For whole-lot
  volumes (integers below \<open>2 ^ 51\<close> in magnitude) the two leg volumes sum to the
  requested volume.
\<close>

theorem mixed_aging_close_two_legs:
  assumes "ticks s vt_symbol = Some tick"
    and "contracts s vt_symbol = Some contract"
    and "contract_exchange contract = SHFE \<or> contract_exchange contract = INE"
    and "positions s (position_key gateway_name (contract_vt_symbol contract)
                        (if direction = LONG then SHORT else LONG)) = Some position"
    and "flt (whole 0) (yd_volume position)"
    and "flt (yd_volume position) (position_volume position)"
    and "\<not> flt (fsub (position_volume position) (position_frozen position)) volume"
    and "gateways s gateway_name = Some gw"
  shows "let price = (if direction = LONG
                      then fadd (ask_price_1 tick) (fmul (pricetick contract) (pyfloat_of_int 2))
                      else fsub (bid_price_1 tick) (fmul (pricetick contract) (pyfloat_of_int 2)));
             req_yd = \<lparr>req_symbol = contract_symbol contract,
                       req_exchange = contract_exchange contract, req_price = price,
                       req_volume = fsub (yd_volume position) (position_frozen position),
                       req_direction = direction, req_offset = CLOSEYESTERDAY,
                       req_type = LIMIT\<rparr>;
             req_td = \<lparr>req_symbol = contract_symbol contract,
                       req_exchange = contract_exchange contract, req_price = price,
                       req_volume = fsub volume
                                      (fsub (yd_volume position) (position_frozen position)),
                       req_direction = direction, req_offset = CLOSETODAY,
                       req_type = LIMIT\<rparr>
         in taker_reqs s vt_symbol volume direction CLOSE gateway_name = Inr [req_td, req_yd]
          \<and> (\<forall>id_td id_yd.
                gw_send_order gw (sent_orders gw) req_td = Inr id_td
              \<and> gw_send_order gw (sent_orders gw @ [req_td]) req_yd = Inr id_yd
              \<longrightarrow> send_taker_order s vt_symbol volume direction CLOSE gateway_name =
                    (Inr [id_td, id_yd],
                     s\<lparr>gateways := (gateways s)(gateway_name \<mapsto>
                                      gw\<lparr>sent_orders := sent_orders gw @ [req_td, req_yd]\<rparr>),
                       logs := logs s @ [\<lparr>log_gateway_name = Some gateway_name,
                                          log_msg = Send_order_msg id_td req_td\<rparr>,
                                         \<lparr>log_gateway_name = Some gateway_name,
                                          log_msg = Send_order_msg id_yd req_yd\<rparr>]\<rparr>))
          \<and> (\<forall>v y f.
                volume = whole v \<and> yd_volume position = whole y
              \<and> position_frozen position = whole f
              \<and> \<bar>v\<bar> < 2 ^ 51 \<and> \<bar>y\<bar> < 2 ^ 51 \<and> \<bar>f\<bar> < 2 ^ 51
              \<longrightarrow> fadd (req_volume req_yd) (req_volume req_td) = volume)"
proof -
  note reqs = taker_reqs_mixed [OF assms(1-7)]
  have sum: "fadd (fsub (whole y) (whole f)) (fsub (whole v) (fsub (whole y) (whole f))) = whole v"
    if "\<bar>v\<bar> < 2 ^ 51" "\<bar>y\<bar> < 2 ^ 51" "\<bar>f\<bar> < 2 ^ 51" for v y f :: int
  proof -
    have 1: "\<bar>y - f\<bar> < 2 ^ 53" and 2: "\<bar>v - (y - f)\<bar> < 2 ^ 53"
      and 3: "\<bar>(y - f) + (v - (y - f))\<bar> < 2 ^ 53"
      using that by simp_all
    show ?thesis
      using fadd_whole [OF 3] by (simp add: fsub_whole [OF 1] fsub_whole [OF 2])
  qed
  show ?thesis
    unfolding Let_def
    by (intro conjI allI impI)
      (simp_all add: reqs send_taker_order_def send_reqs_two_returns [OF assms(8)] sum
        del: send_reqs.simps)
qed

text \<open>
  C1 at a long position of 10 with 4 from yesterday and 1 frozen: selling 5 on SHFE
  submits close-today 2, then close-yesterday 3, and 3 + 2 = 5.
\<close>

theorem mixed_aging_close_two_legs_witness:
  "flt (whole 0) (yd_volume (example_position LONG (whole 10) (whole 1) (whole 4)))
   \<and> flt (yd_volume (example_position LONG (whole 10) (whole 1) (whole 4)))
         (position_volume (example_position LONG (whole 10) (whole 1) (whole 4)))
   \<and> \<not> flt (fsub (position_volume (example_position LONG (whole 10) (whole 1) (whole 4)))
                 (position_frozen (example_position LONG (whole 10) (whole 1) (whole 4))))
            (whole 5)
   \<and> fst (sell (example_engine SHFE [example_position LONG (whole 10) (whole 1) (whole 4)])
            ''X'' (whole 5) ''G1'')
       = Inr [''G1.i'', ''G1.ii'']
   \<and> gateways (snd (sell (example_engine SHFE [example_position LONG (whole 10) (whole 1) (whole 4)])
                      ''X'' (whole 5) ''G1'')) ''G1''
     = Some (example_gateway\<lparr>sent_orders :=
          [\<lparr>req_symbol = ''X'', req_exchange = SHFE, req_price = whole 97, req_volume = whole 2,
            req_direction = SHORT, req_offset = CLOSETODAY, req_type = LIMIT\<rparr>,
           \<lparr>req_symbol = ''X'', req_exchange = SHFE, req_price = whole 97, req_volume = whole 3,
            req_direction = SHORT, req_offset = CLOSEYESTERDAY, req_type = LIMIT\<rparr>]\<rparr>)
   \<and> fadd (whole 3) (whole 2) = whole 5"
proof -
  let ?p = "example_position LONG (whole 10) (whole 1) (whole 4)"
  let ?s = "example_engine SHFE [?p]"
  have t: "ticks ?s ''X'' = Some example_tick"
    and c: "contracts ?s ''X'' = Some (example_contract SHFE)"
    and g: "gateways ?s ''G1'' = Some example_gateway"
    by (simp_all add: example_engine_lookups)
  have p: "positions ?s (position_key ''G1'' (contract_vt_symbol (example_contract SHFE))
                          (if SHORT = LONG then SHORT else LONG)) = Some ?p"
    by (simp add: example_engine_position example_contract_def)
  have e: "contract_exchange (example_contract SHFE) = SHFE
           \<or> contract_exchange (example_contract SHFE) = INE"
    by (simp add: example_contract_def)
  have y1: "flt (whole 0) (yd_volume ?p)" and y2: "flt (yd_volume ?p) (position_volume ?p)"
    and v: "\<not> flt (fsub (position_volume ?p) (position_frozen ?p)) (whole 5)"
    by (simp_all add: example_position_def fsub_whole flt_whole)
  have pv: "yd_volume ?p = whole 4" "position_frozen ?p = whole 1"
    by (simp_all add: example_position_def)
  have vals: "bid_price_1 example_tick = whole 99"
    "pricetick (example_contract SHFE) = whole 1"
    "contract_symbol (example_contract SHFE) = ''X''"
    "contract_exchange (example_contract SHFE) = SHFE"
    "sent_orders example_gateway = []"
    "\<And>sent req. gw_send_order example_gateway sent req
        = Inr (''G1.'' @ replicate (Suc (length sent)) (CHR ''i''))"
    by (simp_all add: example_tick_def example_contract_def example_gateway_def)
  have legs: "fsub (whole 4) (whole 1) = whole 3" "fsub (whole 5) (whole 3) = whole 2"
    by (simp_all add: fsub_whole)
  note inst = mixed_aging_close_two_legs [OF t c e p y1 y2 v g, unfolded Let_def]
  have sum: "fadd (whole 3) (whole 2) = whole 5"
    using inst [THEN conjunct2, THEN conjunct2, rule_format, of 5 4 1]
    by (simp add: pv legs)
  have res: "send_taker_order ?s ''X'' (whole 5) SHORT CLOSE ''G1'' =
        (Inr [''G1.i'', ''G1.ii''],
         ?s\<lparr>gateways := (gateways ?s)(''G1'' \<mapsto> example_gateway\<lparr>sent_orders :=
               [\<lparr>req_symbol = ''X'', req_exchange = SHFE, req_price = whole 97,
                 req_volume = whole 2, req_direction = SHORT, req_offset = CLOSETODAY,
                 req_type = LIMIT\<rparr>,
                \<lparr>req_symbol = ''X'', req_exchange = SHFE, req_price = whole 97,
                 req_volume = whole 3, req_direction = SHORT, req_offset = CLOSEYESTERDAY,
                 req_type = LIMIT\<rparr>]\<rparr>),
             logs := logs ?s @
               [\<lparr>log_gateway_name = Some ''G1'', log_msg = Send_order_msg ''G1.i''
                   \<lparr>req_symbol = ''X'', req_exchange = SHFE, req_price = whole 97,
                     req_volume = whole 2, req_direction = SHORT, req_offset = CLOSETODAY,
                     req_type = LIMIT\<rparr>\<rparr>,
                \<lparr>log_gateway_name = Some ''G1'', log_msg = Send_order_msg ''G1.ii''
                   \<lparr>req_symbol = ''X'', req_exchange = SHFE, req_price = whole 97,
                     req_volume = whole 3, req_direction = SHORT, req_offset = CLOSEYESTERDAY,
                     req_type = LIMIT\<rparr>\<rparr>]\<rparr>)"
    using inst [THEN conjunct2, THEN conjunct1, rule_format, of "''G1.i''" "''G1.ii''"]
    by (simp add: vals pv legs example_price)
  show ?thesis
    using y1 y2 v sum by (simp add: sell_def res)
qed


text \<open>
  Claim C1 as stated fails twice. It has the close-yesterday leg submitted first: at the
  position above the gateway receives the close-today leg first. And it has the leg
  volumes always sum to the requested volume: at a long position of 1.0 with 0.2 from
  yesterday and none frozen, selling 0.9 gives a close-yesterday leg of 0.2 and a
  close-today leg of 0.7, and 0.2 + 0.7 is 0.8999999999999999 in floating point, not 0.9.
  At exponent \<open>- 54\<close> the mantissa of 0.2 is 3602879701896397, of 0.7 it is
  12610078956637388, of 0.9 it is 16212958658533786 and of 0.8999999999999999 it is
  16212958658533784.
\<close>

theorem mixed_aging_close_counterexample:
  "map req_offset (sent_orders (the (gateways
        (snd (sell (example_engine SHFE [example_position LONG (whole 10) (whole 1) (whole 4)])
               ''X'' (whole 5) ''G1'')) ''G1'')))
     = [CLOSETODAY, CLOSEYESTERDAY]
   \<and> [CLOSETODAY, CLOSEYESTERDAY] \<noteq> [CLOSEYESTERDAY, CLOSETODAY]
   \<and> flt (whole 0) (dbl 3602879701896397 (- 54))
   \<and> flt (dbl 3602879701896397 (- 54)) (whole 1)
   \<and> \<not> flt (fsub (whole 1) (whole 0)) (dbl 16212958658533786 (- 54))
   \<and> taker_reqs
        (example_engine SHFE
           [example_position LONG (whole 1) (whole 0) (dbl 3602879701896397 (- 54))])
        ''X'' (dbl 16212958658533786 (- 54)) SHORT CLOSE ''G1''
     = Inr [\<lparr>req_symbol = ''X'', req_exchange = SHFE, req_price = whole 97,
              req_volume = dbl 12610078956637388 (- 54),
              req_direction = SHORT, req_offset = CLOSETODAY, req_type = LIMIT\<rparr>,
            \<lparr>req_symbol = ''X'', req_exchange = SHFE, req_price = whole 97,
              req_volume = dbl 3602879701896397 (- 54),
              req_direction = SHORT, req_offset = CLOSEYESTERDAY, req_type = LIMIT\<rparr>]
   \<and> fadd (dbl 3602879701896397 (- 54)) (dbl 12610078956637388 (- 54))
     = dbl 16212958658533784 (- 54)
   \<and> dbl 16212958658533784 (- 54) \<noteq> dbl 16212958658533786 (- 54)"
proof -
  let ?p = "example_position LONG (whole 10) (whole 1) (whole 4)"
  let ?s = "example_engine SHFE [?p]"
  have t: "ticks ?s ''X'' = Some example_tick"
    and c: "contracts ?s ''X'' = Some (example_contract SHFE)"
    and g: "gateways ?s ''G1'' = Some example_gateway"
    by (simp_all add: example_engine_lookups)
  have p: "positions ?s (position_key ''G1'' (contract_vt_symbol (example_contract SHFE))
                          (if SHORT = LONG then SHORT else LONG)) = Some ?p"
    by (simp add: example_engine_position example_contract_def)
  have e: "contract_exchange (example_contract SHFE) = SHFE
           \<or> contract_exchange (example_contract SHFE) = INE"
    by (simp add: example_contract_def)
  have y1: "flt (whole 0) (yd_volume ?p)" and y2: "flt (yd_volume ?p) (position_volume ?p)"
    and v: "\<not> flt (fsub (position_volume ?p) (position_frozen ?p)) (whole 5)"
    by (simp_all add: example_position_def fsub_whole flt_whole)
  have gw: "\<And>sent req. gw_send_order example_gateway sent req
        = Inr (''G1.'' @ replicate (Suc (length sent)) (CHR ''i''))"
    "sent_orders example_gateway = []"
    by (simp_all add: example_gateway_def)
  have order: "map req_offset (sent_orders (the (gateways
        (snd (sell ?s ''X'' (whole 5) ''G1'')) ''G1''))) = [CLOSETODAY, CLOSEYESTERDAY]"
    by (simp add: sell_def send_taker_order_def taker_reqs_mixed [OF t c e p y1 y2 v]
        send_reqs_two_returns [OF g gw(1) gw(1)] gw(2) del: send_reqs.simps)
  let ?yd = "dbl 3602879701896397 (- 54)"
  let ?v = "dbl 16212958658533786 (- 54)"
  let ?q = "example_position LONG (whole 1) (whole 0) ?yd"
  let ?r = "example_engine SHFE [?q]"
  have t': "ticks ?r ''X'' = Some example_tick"
    and c': "contracts ?r ''X'' = Some (example_contract SHFE)"
    by (simp_all add: example_engine_lookups)
  have p': "positions ?r (position_key ''G1'' (contract_vt_symbol (example_contract SHFE))
                          (if SHORT = LONG then SHORT else LONG)) = Some ?q"
    by (simp add: example_engine_position example_contract_def)
  have f1: "flt (whole 0) ?yd"
    by (simp add: whole_as_dbl flt_dbl)
  have f2: "flt ?yd (whole 1)"
    by (simp add: whole_as_dbl flt_dbl)
  have f3: "\<not> flt (fsub (whole 1) (whole 0)) ?v"
    by (simp add: fsub_whole) (simp add: whole_as_dbl flt_dbl)
  have q: "yd_volume ?q = ?yd" "position_volume ?q = whole 1" "position_frozen ?q = whole 0"
    by (simp_all add: example_position_def)
  have vals: "bid_price_1 example_tick = whole 99"
    "pricetick (example_contract SHFE) = whole 1"
    "contract_symbol (example_contract SHFE) = ''X''"
    "contract_exchange (example_contract SHFE) = SHFE"
    by (simp_all add: example_tick_def example_contract_def)
  have reqs: "taker_reqs ?r ''X'' ?v SHORT CLOSE ''G1''
     = Inr [\<lparr>req_symbol = ''X'', req_exchange = SHFE, req_price = whole 97,
              req_volume = dbl 12610078956637388 (- 54),
              req_direction = SHORT, req_offset = CLOSETODAY, req_type = LIMIT\<rparr>,
            \<lparr>req_symbol = ''X'', req_exchange = SHFE, req_price = whole 97,
              req_volume = ?yd,
              req_direction = SHORT, req_offset = CLOSEYESTERDAY, req_type = LIMIT\<rparr>]"
    using taker_reqs_mixed [OF t' c' e p', of "?v"] f1 f2 f3
    by (simp add: q vals example_price fsub_dbl_zero_right example_sub)
  show ?thesis
    using order f1 f2 f3 reqs example_add by (simp add: dbl_eq_iff)
qed

text \<open>
  Claim C10. In a mixed-aging close that passes the availability check, the
  close-yesterday leg's volume is yesterday's-volume minus frozen whatever volume was
  requested, and the close-today leg's volume is the requested volume minus that amount.
  So whenever yesterday's-volume minus frozen, as computed, exceeds the requested volume,
  the close-today leg has a negative volume, and it is the first request the gateway is
  called with: nothing between the intent and the gateway checks for it.
\<close>

theorem mixed_aging_close_today_leg_negative:
  assumes "ticks s vt_symbol = Some tick"
    and "contracts s vt_symbol = Some contract"
    and "contract_exchange contract = SHFE \<or> contract_exchange contract = INE"
    and "positions s (position_key gateway_name (contract_vt_symbol contract)
                        (if direction = LONG then SHORT else LONG)) = Some position"
    and "flt (whole 0) (yd_volume position)"
    and "flt (yd_volume position) (position_volume position)"
    and "\<not> flt (fsub (position_volume position) (position_frozen position)) volume"
    and "gateways s gateway_name = Some gw"
  shows "\<exists>gw' req_td req_yd rest.
           taker_reqs s vt_symbol volume direction CLOSE gateway_name = Inr [req_td, req_yd]
         \<and> gateways (snd (send_taker_order s vt_symbol volume direction CLOSE gateway_name))
             gateway_name = Some gw'
         \<and> sent_orders gw' = sent_orders gw @ req_td # rest
         \<and> req_offset req_yd = CLOSEYESTERDAY
         \<and> req_volume req_yd = fsub (yd_volume position) (position_frozen position)
         \<and> req_offset req_td = CLOSETODAY
         \<and> req_volume req_td
             = fsub volume (fsub (yd_volume position) (position_frozen position))
         \<and> (flt volume (fsub (yd_volume position) (position_frozen position))
              \<longrightarrow> flt (req_volume req_td) (whole 0))"
proof -
  let ?price = "if direction = LONG
                then fadd (ask_price_1 tick) (fmul (pricetick contract) (pyfloat_of_int 2))
                else fsub (bid_price_1 tick) (fmul (pricetick contract) (pyfloat_of_int 2))"
  let ?td = "\<lparr>req_symbol = contract_symbol contract,
             req_exchange = contract_exchange contract, req_price = ?price,
             req_volume = fsub volume (fsub (yd_volume position) (position_frozen position)),
             req_direction = direction, req_offset = CLOSETODAY, req_type = LIMIT\<rparr>"
  let ?yd = "\<lparr>req_symbol = contract_symbol contract,
             req_exchange = contract_exchange contract, req_price = ?price,
             req_volume = fsub (yd_volume position) (position_frozen position),
             req_direction = direction, req_offset = CLOSEYESTERDAY, req_type = LIMIT\<rparr>"
  have reqs: "taker_reqs s vt_symbol volume direction CLOSE gateway_name = Inr [?td, ?yd]"
    by (rule taker_reqs_mixed [OF assms(1-7)])
  from send_reqs_sent [OF assms(8), of "[?td, ?yd]" "[]"]
  obtain gw' n where gw': "gateways (snd (send_reqs s [?td, ?yd] gateway_name [])) gateway_name
        = Some gw'"
    and sent: "sent_orders gw' = sent_orders gw @ take n [?td, ?yd]"
    and n: "0 < n"
    by auto
  from n obtain k where k: "n = Suc k" by (cases n) simp_all
  have sent': "sent_orders gw' = sent_orders gw @ ?td # take k [?yd]"
    by (simp add: sent k)
  have neg: "flt volume (fsub (yd_volume position) (position_frozen position))
      \<longrightarrow> flt (req_volume ?td) (whole 0)"
    by (simp add: whole_zero fsub_negative)
  have run: "send_taker_order s vt_symbol volume direction CLOSE gateway_name
      = send_reqs s [?td, ?yd] gateway_name []"
    by (simp add: send_taker_order_def reqs del: send_reqs.simps)
  show ?thesis
    apply (rule exI [of _ gw'], rule exI [of _ ?td], rule exI [of _ ?yd],
        rule exI [of _ "take k [?yd]"])
    using reqs gw' sent' neg unfolding run by simp
qed

text \<open>
  C10 at a long position of 10 with 8 from yesterday and none frozen: selling 5 submits a
  close-today leg of volume -3.
\<close>

theorem mixed_aging_close_today_leg_negative_witness:
  "flt (whole 0) (yd_volume (example_position LONG (whole 10) (whole 0) (whole 8)))
   \<and> flt (yd_volume (example_position LONG (whole 10) (whole 0) (whole 8)))
         (position_volume (example_position LONG (whole 10) (whole 0) (whole 8)))
   \<and> \<not> flt (fsub (position_volume (example_position LONG (whole 10) (whole 0) (whole 8)))
                 (position_frozen (example_position LONG (whole 10) (whole 0) (whole 8))))
            (whole 5)
   \<and> flt (whole 5) (fsub (yd_volume (example_position LONG (whole 10) (whole 0) (whole 8)))
                          (position_frozen (example_position LONG (whole 10) (whole 0) (whole 8))))
   \<and> (\<exists>gw' req_td rest.
         gateways (snd (sell (example_engine SHFE
                                [example_position LONG (whole 10) (whole 0) (whole 8)])
                          ''X'' (whole 5) ''G1'')) ''G1'' = Some gw'
       \<and> sent_orders gw' = req_td # rest
       \<and> req_offset req_td = CLOSETODAY \<and> req_volume req_td = whole (- 3)
       \<and> flt (req_volume req_td) (whole 0))"
proof -
  let ?p = "example_position LONG (whole 10) (whole 0) (whole 8)"
  let ?s = "example_engine SHFE [?p]"
  have t: "ticks ?s ''X'' = Some example_tick"
    and c: "contracts ?s ''X'' = Some (example_contract SHFE)"
    and g: "gateways ?s ''G1'' = Some example_gateway"
    by (simp_all add: example_engine_lookups)
  have p: "positions ?s (position_key ''G1'' (contract_vt_symbol (example_contract SHFE))
                          (if SHORT = LONG then SHORT else LONG)) = Some ?p"
    by (simp add: example_engine_position example_contract_def)
  have e: "contract_exchange (example_contract SHFE) = SHFE
           \<or> contract_exchange (example_contract SHFE) = INE"
    by (simp add: example_contract_def)
  have y1: "flt (whole 0) (yd_volume ?p)" and y2: "flt (yd_volume ?p) (position_volume ?p)"
    and v: "\<not> flt (fsub (position_volume ?p) (position_frozen ?p)) (whole 5)"
    and n: "flt (whole 5) (fsub (yd_volume ?p) (position_frozen ?p))"
    by (simp_all add: example_position_def fsub_whole flt_whole)
  have pv: "yd_volume ?p = whole 8" "position_frozen ?p = whole 0"
    by (simp_all add: example_position_def)
  have legs: "fsub (whole 8) (whole 0) = whole 8" "fsub (whole 5) (whole 8) = whole (- 3)"
    by (simp_all add: fsub_whole)
  have sent: "sent_orders example_gateway = []"
    by (simp add: example_gateway_def)
  from mixed_aging_close_today_leg_negative [OF t c e p y1 y2 v g] n
  obtain gw' req_td rest where
    "gateways (snd (send_taker_order ?s ''X'' (whole 5) SHORT CLOSE ''G1'')) ''G1'' = Some gw'"
    "sent_orders gw' = sent_orders example_gateway @ req_td # rest"
    "req_offset req_td = CLOSETODAY"
    "req_volume req_td = fsub (whole 5) (fsub (yd_volume ?p) (position_frozen ?p))"
    "flt (req_volume req_td) (whole 0)"
    by blast
  then have "gateways (snd (sell ?s ''X'' (whole 5) ''G1'')) ''G1'' = Some gw'
       \<and> sent_orders gw' = req_td # rest
       \<and> req_offset req_td = CLOSETODAY \<and> req_volume req_td = whole (- 3)
       \<and> flt (req_volume req_td) (whole 0)"
    by (simp add: sell_def sent pv legs)
  then have "\<exists>gw' req_td rest.
         gateways (snd (sell ?s ''X'' (whole 5) ''G1'')) ''G1'' = Some gw'
       \<and> sent_orders gw' = req_td # rest
       \<and> req_offset req_td = CLOSETODAY \<and> req_volume req_td = whole (- 3)
       \<and> flt (req_volume req_td) (whole 0)"
    by blast
  with y1 y2 v n show ?thesis by blast
qed

section \<open>The limit price of a taker order\<close>

lemma taker_reqs_priced:
  assumes "ticks s vt_symbol = Some tick" and "contracts s vt_symbol = Some contract"
    and "taker_reqs s vt_symbol volume direction offset gateway_name = Inr reqs"
  shows "reqs \<noteq> []
       \<and> (offset \<noteq> CLOSE \<longrightarrow> length reqs = 1)
       \<and> (\<forall>r \<in> set reqs.
            req_price r = (if direction = LONG
                 then fadd (ask_price_1 tick) (fmul (pricetick contract) (pyfloat_of_int 2))
                 else fsub (bid_price_1 tick) (fmul (pricetick contract) (pyfloat_of_int 2)))
          \<and> req_direction r = direction \<and> req_type r = LIMIT)"
  using assms
  by (auto simp add: taker_reqs_def get_tick_def get_contract_def get_df_def Let_def
      split: option.splits if_splits)

text \<open>
  Claim C7. With the quote and the contract cached and the gateway registered, every
  request an intent submits is a limit order priced, in floating point, at best ask plus
  tick size times 2 when the intent is long (buy, cover) and at best bid minus tick size
  times 2 when it is short (sell, short). An open intent submits exactly one such
  request, and a close intent submits none only when the router aborts it. In the spec's
  example (gateway G1, symbol X, tick size 1, bid 99, ask 101) an open-long of volume 5
  submits exactly one request: price 103, volume 5, direction long, offset open.
\<close>

theorem taker_limit_price:
  "(ticks s vt_symbol = Some tick \<and> contracts s vt_symbol = Some contract
      \<and> gateways s gateway_name = Some gw
    \<longrightarrow> (\<forall>(intent, direction, offset)
            \<in> set [(buy, LONG, OPEN), (cover, LONG, CLOSE), (sell, SHORT, CLOSE),
                   (short, SHORT, OPEN)].
          \<exists>gw' reqs.
            gateways (snd (intent s vt_symbol volume gateway_name)) gateway_name = Some gw'
          \<and> sent_orders gw' = sent_orders gw @ reqs
          \<and> (\<forall>r \<in> set reqs.
                req_price r = (if direction = LONG
                     then fadd (ask_price_1 tick) (fmul (pricetick contract) (pyfloat_of_int 2))
                     else fsub (bid_price_1 tick) (fmul (pricetick contract) (pyfloat_of_int 2)))
              \<and> req_direction r = direction \<and> req_type r = LIMIT)
          \<and> (reqs = [] \<longleftrightarrow>
                (\<exists>msg. taker_reqs s vt_symbol volume direction offset gateway_name = Inl msg))
          \<and> (offset = OPEN \<longrightarrow> length reqs = 1)))
   \<and> fst (buy (example_engine SHFE []) ''X'' (whole 5) ''G1'') = Inr [''G1.i'']
   \<and> gateways (snd (buy (example_engine SHFE []) ''X'' (whole 5) ''G1'')) ''G1''
       = Some (example_gateway\<lparr>sent_orders :=
            [\<lparr>req_symbol = ''X'', req_exchange = SHFE, req_price = whole 103,
              req_volume = whole 5, req_direction = LONG, req_offset = OPEN,
              req_type = LIMIT\<rparr>]\<rparr>)"
proof -
  have general: "\<exists>gw' reqs.
        gateways (snd (send_taker_order s vt_symbol volume direction offset gateway_name))
          gateway_name = Some gw'
      \<and> sent_orders gw' = sent_orders gw @ reqs
      \<and> (\<forall>r \<in> set reqs.
            req_price r = (if direction = LONG
                 then fadd (ask_price_1 tick) (fmul (pricetick contract) (pyfloat_of_int 2))
                 else fsub (bid_price_1 tick) (fmul (pricetick contract) (pyfloat_of_int 2)))
          \<and> req_direction r = direction \<and> req_type r = LIMIT)
      \<and> (reqs = [] \<longleftrightarrow>
            (\<exists>msg. taker_reqs s vt_symbol volume direction offset gateway_name = Inl msg))
      \<and> (offset = OPEN \<longrightarrow> length reqs = 1)"
    if t: "ticks s vt_symbol = Some tick" and c: "contracts s vt_symbol = Some contract"
      and g: "gateways s gateway_name = Some gw"
    for direction offset
  proof (cases "taker_reqs s vt_symbol volume direction offset gateway_name")
    case (Inl msg)
    have "offset = CLOSE"
      using taker_reqs_open [OF t c, of offset volume direction gateway_name] Inl
      by (cases "offset = CLOSE") simp_all
    then have "offset \<noteq> OPEN" by simp
    moreover have "gateways (snd (send_taker_order s vt_symbol volume direction offset
        gateway_name)) gateway_name = Some gw"
      using g by (simp add: send_taker_order_def Inl engine_log_def)
    ultimately show ?thesis
      using Inl by (intro exI [of _ gw] exI [of _ "[]"]) simp
  next
    case (Inr rs)
    from taker_reqs_priced [OF t c Inr]
    have ne: "rs \<noteq> []" and one: "offset \<noteq> CLOSE \<longrightarrow> length rs = 1"
      and priced: "\<forall>r \<in> set rs.
            req_price r = (if direction = LONG
                 then fadd (ask_price_1 tick) (fmul (pricetick contract) (pyfloat_of_int 2))
                 else fsub (bid_price_1 tick) (fmul (pricetick contract) (pyfloat_of_int 2)))
          \<and> req_direction r = direction \<and> req_type r = LIMIT"
      by simp_all
    from send_reqs_sent [OF g, of rs "[]"] ne
    obtain gw' n where gw': "gateways (snd (send_reqs s rs gateway_name [])) gateway_name
          = Some gw'"
      and sent: "sent_orders gw' = sent_orders gw @ take n rs" and n: "0 < n"
      by auto
    have run: "send_taker_order s vt_symbol volume direction offset gateway_name
        = send_reqs s rs gateway_name []"
      by (simp add: send_taker_order_def Inr)
    have "take n rs \<noteq> []" using ne n by simp
    moreover have "\<forall>r \<in> set (take n rs).
            req_price r = (if direction = LONG
                 then fadd (ask_price_1 tick) (fmul (pricetick contract) (pyfloat_of_int 2))
                 else fsub (bid_price_1 tick) (fmul (pricetick contract) (pyfloat_of_int 2)))
          \<and> req_direction r = direction \<and> req_type r = LIMIT"
      using priced by (meson in_set_takeD)
    moreover have "offset = OPEN \<longrightarrow> length (take n rs) = 1"
      using one n by auto
    ultimately show ?thesis
      unfolding run using gw' sent Inr
      by (intro exI [of _ gw'] exI [of _ "take n rs"]) simp
  qed
  have ex: "fst (buy (example_engine SHFE []) ''X'' (whole 5) ''G1'') = Inr [''G1.i'']
   \<and> gateways (snd (buy (example_engine SHFE []) ''X'' (whole 5) ''G1'')) ''G1''
       = Some (example_gateway\<lparr>sent_orders :=
            [\<lparr>req_symbol = ''X'', req_exchange = SHFE, req_price = whole 103,
              req_volume = whole 5, req_direction = LONG, req_offset = OPEN,
              req_type = LIMIT\<rparr>]\<rparr>)"
  proof -
    let ?s = "example_engine SHFE []"
    have t: "ticks ?s ''X'' = Some example_tick"
      and c: "contracts ?s ''X'' = Some (example_contract SHFE)"
      and g: "gateways ?s ''G1'' = Some example_gateway"
      by (simp_all add: example_engine_lookups)
    have o: "OPEN \<noteq> CLOSE" by simp
    have vals: "ask_price_1 example_tick = whole 101"
      "pricetick (example_contract SHFE) = whole 1"
      "contract_symbol (example_contract SHFE) = ''X''"
      "contract_exchange (example_contract SHFE) = SHFE"
      "sent_orders example_gateway = []"
      "\<And>sent req. gw_send_order example_gateway sent req
          = Inr (''G1.'' @ replicate (Suc (length sent)) (CHR ''i''))"
      by (simp_all add: example_tick_def example_contract_def example_gateway_def)
    show ?thesis
      by (simp add: buy_def send_taker_order_def taker_reqs_open [OF t c o] send_reqs_one [OF g]
          vals example_price example_engine_lookups del: send_reqs.simps)
  qed
  have intents: "\<forall>(intent, direction, offset)
            \<in> set [(buy, LONG, OPEN), (cover, LONG, CLOSE), (sell, SHORT, CLOSE),
                   (short, SHORT, OPEN)].
          \<exists>gw' reqs.
            gateways (snd (intent s vt_symbol volume gateway_name)) gateway_name = Some gw'
          \<and> sent_orders gw' = sent_orders gw @ reqs
          \<and> (\<forall>r \<in> set reqs.
                req_price r = (if direction = LONG
                     then fadd (ask_price_1 tick) (fmul (pricetick contract) (pyfloat_of_int 2))
                     else fsub (bid_price_1 tick) (fmul (pricetick contract) (pyfloat_of_int 2)))
              \<and> req_direction r = direction \<and> req_type r = LIMIT)
          \<and> (reqs = [] \<longleftrightarrow>
                (\<exists>msg. taker_reqs s vt_symbol volume direction offset gateway_name = Inl msg))
          \<and> (offset = OPEN \<longrightarrow> length reqs = 1)"
    if h: "ticks s vt_symbol = Some tick \<and> contracts s vt_symbol = Some contract
      \<and> gateways s gateway_name = Some gw"
  proof -
    from h have t: "ticks s vt_symbol = Some tick"
      and c: "contracts s vt_symbol = Some contract"
      and g: "gateways s gateway_name = Some gw"
      by simp_all
    show ?thesis
      using general [OF t c g, of LONG OPEN] general [OF t c g, of LONG CLOSE]
        general [OF t c g, of SHORT CLOSE] general [OF t c g, of SHORT OPEN]
      by (simp add: buy_def sell_def short_def cover_def)
  qed
  from intents ex show ?thesis by blast
qed

text \<open>
  C7 at the example engine with a long and a short position: a sell submits requests, all
  priced 97, and a cover submits requests, all priced 103.
\<close>

theorem taker_limit_price_witness:
  "ticks (example_engine SHFE [example_position LONG (whole 10) (whole 1) (whole 4),
                               example_position SHORT (whole 10) (whole 1) (whole 0)]) ''X''
     = Some example_tick
   \<and> contracts (example_engine SHFE [example_position LONG (whole 10) (whole 1) (whole 4),
                                   example_position SHORT (whole 10) (whole 1) (whole 0)]) ''X''
     = Some (example_contract SHFE)
   \<and> gateways (example_engine SHFE [example_position LONG (whole 10) (whole 1) (whole 4),
                                  example_position SHORT (whole 10) (whole 1) (whole 0)]) ''G1''
     = Some example_gateway
   \<and> (\<exists>gw' reqs.
         gateways (snd (sell (example_engine SHFE
              [example_position LONG (whole 10) (whole 1) (whole 4),
               example_position SHORT (whole 10) (whole 1) (whole 0)]) ''X'' (whole 5) ''G1''))
           ''G1'' = Some gw'
       \<and> sent_orders gw' = reqs \<and> reqs \<noteq> []
       \<and> (\<forall>r \<in> set reqs.
             req_price r = whole 97 \<and> req_direction r = SHORT \<and> req_type r = LIMIT))
   \<and> (\<exists>gw' reqs.
         gateways (snd (cover (example_engine SHFE
              [example_position LONG (whole 10) (whole 1) (whole 4),
               example_position SHORT (whole 10) (whole 1) (whole 0)]) ''X'' (whole 5) ''G1''))
           ''G1'' = Some gw'
       \<and> sent_orders gw' = reqs \<and> reqs \<noteq> []
       \<and> (\<forall>r \<in> set reqs.
             req_price r = whole 103 \<and> req_direction r = LONG \<and> req_type r = LIMIT))"
proof -
  let ?pl = "example_position LONG (whole 10) (whole 1) (whole 4)"
  let ?ps = "example_position SHORT (whole 10) (whole 1) (whole 0)"
  let ?s = "example_engine SHFE [?pl, ?ps]"
  have t: "ticks ?s ''X'' = Some example_tick"
    and c: "contracts ?s ''X'' = Some (example_contract SHFE)"
    and g: "gateways ?s ''G1'' = Some example_gateway"
    by (simp_all add: example_engine_lookups)
  have h: "ticks ?s ''X'' = Some example_tick
      \<and> contracts ?s ''X'' = Some (example_contract SHFE)
      \<and> gateways ?s ''G1'' = Some example_gateway"
    using t c g by simp
  have pl: "positions ?s (position_key ''G1'' (contract_vt_symbol (example_contract SHFE))
                          (if SHORT = LONG then SHORT else LONG)) = Some ?pl"
    and ps: "positions ?s (position_key ''G1'' (contract_vt_symbol (example_contract SHFE))
                          (if LONG = LONG then SHORT else LONG)) = Some ?ps"
    by (simp_all add: example_engine_positions example_contract_def)
  have vl: "\<not> flt (fsub (position_volume ?pl) (position_frozen ?pl)) (whole 5)"
    and vs: "\<not> flt (fsub (position_volume ?ps) (position_frozen ?ps)) (whole 5)"
    by (simp_all add: example_position_def fsub_whole flt_whole)
  have no_abort:
    "\<not> (\<exists>msg. taker_reqs ?s ''X'' (whole 5) SHORT CLOSE ''G1'' = Inl msg)"
    "\<not> (\<exists>msg. taker_reqs ?s ''X'' (whole 5) LONG CLOSE ''G1'' = Inl msg)"
    by (simp_all add: taker_reqs_close [OF t c pl vl] taker_reqs_close [OF t c ps vs])
  have vals: "ask_price_1 example_tick = whole 101" "bid_price_1 example_tick = whole 99"
    "pricetick (example_contract SHFE) = whole 1" "sent_orders example_gateway = []"
    by (simp_all add: example_tick_def example_contract_def example_gateway_def)
  from taker_limit_price [of ?s "''X''" example_tick "example_contract SHFE" "''G1''"
      example_gateway "whole 5"] h
  have "\<forall>(intent, direction, offset)
            \<in> set [(buy, LONG, OPEN), (cover, LONG, CLOSE), (sell, SHORT, CLOSE),
                   (short, SHORT, OPEN)].
          \<exists>gw' reqs.
            gateways (snd (intent ?s ''X'' (whole 5) ''G1'')) ''G1'' = Some gw'
          \<and> sent_orders gw' = sent_orders example_gateway @ reqs
          \<and> (\<forall>r \<in> set reqs.
                req_price r = (if direction = LONG
                     then fadd (ask_price_1 example_tick)
                            (fmul (pricetick (example_contract SHFE)) (pyfloat_of_int 2))
                     else fsub (bid_price_1 example_tick)
                            (fmul (pricetick (example_contract SHFE)) (pyfloat_of_int 2)))
              \<and> req_direction r = direction \<and> req_type r = LIMIT)
          \<and> (reqs = [] \<longleftrightarrow>
                (\<exists>msg. taker_reqs ?s ''X'' (whole 5) direction offset ''G1'' = Inl msg))
          \<and> (offset = OPEN \<longrightarrow> length reqs = 1)"
    by blast
  then have "(\<exists>gw' reqs.
         gateways (snd (sell ?s ''X'' (whole 5) ''G1'')) ''G1'' = Some gw'
       \<and> sent_orders gw' = reqs \<and> reqs \<noteq> []
       \<and> (\<forall>r \<in> set reqs.
             req_price r = whole 97 \<and> req_direction r = SHORT \<and> req_type r = LIMIT))
   \<and> (\<exists>gw' reqs.
         gateways (snd (cover ?s ''X'' (whole 5) ''G1'')) ''G1'' = Some gw'
       \<and> sent_orders gw' = reqs \<and> reqs \<noteq> []
       \<and> (\<forall>r \<in> set reqs.
             req_price r = whole 103 \<and> req_direction r = LONG \<and> req_type r = LIMIT))"
    using no_abort by (simp add: vals example_price) blast
  with h show ?thesis by blast
qed

section \<open>Cancellation and the Active Order Index\<close>

text \<open>
  Claim C8. Cancelling an order id that is in the Active Order Index builds the cancel
  request from that order's own id, symbol and exchange and hands it to the gateway
  registered under the order's gateway name (then logs the cancellation). Cancelling an
  id that is not in the index changes nothing: no gateway call, no log entry, no error.
\<close>

theorem cancel_active_order_effect:
  "(active_orders s orderid = Some order \<and> gateways s (order_gateway_name order) = Some gw
    \<longrightarrow> cancel_active_order s orderid =
          s\<lparr>gateways := (gateways s)(order_gateway_name order \<mapsto>
               gw\<lparr>cancelled_orders := cancelled_orders gw @
                    [\<lparr>cancel_orderid = order_orderid order,
                      cancel_symbol = order_symbol order,
                      cancel_exchange = order_exchange order\<rparr>]\<rparr>),
            logs := logs s @ [\<lparr>log_gateway_name = None,
                              log_msg = Cancel_active_order_msg order\<rparr>]\<rparr>)
   \<and> (active_orders s orderid = None \<longrightarrow> cancel_active_order s orderid = s)"
  by (simp add: cancel_active_order_def get_active_order_def get_df_def cancel_order_def
      get_gateway_def create_cancel_request_def engine_log_def Let_def)

text \<open>
  C8 after one order event for the active order 7 of gateway G1: cancelling
  \<^verbatim>\<open>G1.7\<close> gives G1 the cancel request of order 7, cancelling \<^verbatim>\<open>G1.8\<close> leaves
  the engine as it was.
\<close>

theorem cancel_active_order_effect_witness:
  "active_orders (process_event (example_engine SHFE []) (EVENT_ORDER (example_order ''7'' NOTTRADED)))
     ''G1.7'' = Some (example_order ''7'' NOTTRADED)
   \<and> active_orders (process_event (example_engine SHFE []) (EVENT_ORDER (example_order ''7'' NOTTRADED)))
     ''G1.8'' = None
   \<and> gateways (cancel_active_order
        (process_event (example_engine SHFE []) (EVENT_ORDER (example_order ''7'' NOTTRADED)))
        ''G1.7'') ''G1''
     = Some (example_gateway\<lparr>cancelled_orders :=
          [\<lparr>cancel_orderid = ''7'', cancel_symbol = ''X'', cancel_exchange = SHFE\<rparr>]\<rparr>)
   \<and> cancel_active_order
        (process_event (example_engine SHFE []) (EVENT_ORDER (example_order ''7'' NOTTRADED)))
        ''G1.8''
     = process_event (example_engine SHFE []) (EVENT_ORDER (example_order ''7'' NOTTRADED))"
proof -
  let ?o = "example_order ''7'' NOTTRADED"
  let ?s = "process_event (example_engine SHFE []) (EVENT_ORDER ?o)"
  have a: "active_orders ?s ''G1.7'' = Some ?o"
    and n: "active_orders ?s ''G1.8'' = None"
    by (simp_all add: process_order_event_def is_active_def example_order_def Let_def
        example_engine_def init_engine_def process_tick_event_def process_contract_event_def
        get_contract_def get_df_def)
  have g: "gateways ?s (order_gateway_name ?o) = Some example_gateway"
    by (simp add: process_order_event_def Let_def example_engine_lookups example_order_def)
  have o: "order_gateway_name ?o = ''G1''" "order_orderid ?o = ''7''" "order_symbol ?o = ''X''"
    "order_exchange ?o = SHFE"
    by (simp_all add: example_order_def)
  from cancel_active_order_effect [of ?s "''G1.7''" ?o example_gateway] a g
  have 1: "cancel_active_order ?s ''G1.7'' =
          ?s\<lparr>gateways := (gateways ?s)(order_gateway_name ?o \<mapsto>
               example_gateway\<lparr>cancelled_orders := cancelled_orders example_gateway @
                    [\<lparr>cancel_orderid = order_orderid ?o,
                      cancel_symbol = order_symbol ?o,
                      cancel_exchange = order_exchange ?o\<rparr>]\<rparr>),
            logs := logs ?s @ [\<lparr>log_gateway_name = None,
                              log_msg = Cancel_active_order_msg ?o\<rparr>]\<rparr>"
    by blast
  from cancel_active_order_effect [of ?s "''G1.8''" ?o example_gateway] n
  have 2: "cancel_active_order ?s ''G1.8'' = ?s"
    by blast
  have c: "cancelled_orders example_gateway = []"
    by (simp add: example_gateway_def)
  show ?thesis
    using a n by (simp add: 1 2 o c del: process_event.simps)
qed

lemma orders_process_event:
  "orders (process_event s e) orderid =
     (case e of
        EVENT_ORDER order \<Rightarrow> if vt_orderid order = orderid then Some order else orders s orderid
      | _ \<Rightarrow> orders s orderid)"
  by (cases e)
    (simp_all add: process_tick_event_def process_order_event_def process_trade_event_def
      process_account_event_def process_contract_event_def process_position_event_def
      engine_log_def Let_def)

lemma active_orders_process_event:
  "active_orders (process_event s e) orderid =
     (case e of
        EVENT_ORDER order \<Rightarrow>
          if vt_orderid order = orderid
          then (if is_active order then Some order else None)
          else active_orders s orderid
      | _ \<Rightarrow> active_orders s orderid)"
  by (cases e)
    (auto simp add: process_tick_event_def process_order_event_def process_trade_event_def
      process_account_event_def process_contract_event_def process_position_event_def
      engine_log_def Let_def)

lemma orders_process_events:
  "orders (process_events s es) orderid =
     (case latest_order es orderid of Some order \<Rightarrow> Some order | None \<Rightarrow> orders s orderid)"
proof (induction es arbitrary: s)
  case Nil
  then show ?case by simp
next
  case (Cons e es)
  show ?case
    by (simp add: Cons.IH orders_process_event split: option.splits Event.splits
        del: process_event.simps)
qed

lemma active_orders_process_events:
  "active_orders (process_events s es) orderid =
     (case latest_order es orderid of
        Some order \<Rightarrow> if is_active order then Some order else None
      | None \<Rightarrow> active_orders s orderid)"
proof (induction es arbitrary: s)
  case Nil
  then show ?case by simp
next
  case (Cons e es)
  show ?case
    by (simp add: Cons.IH active_orders_process_event split: option.splits Event.splits
        del: process_event.simps)
qed

lemma is_active_iff_not_terminal:
  "is_active order \<longleftrightarrow> order_status order \<notin> {ALLTRADED, CANCELLED, REJECTED}"
  by (cases "order_status order") (simp_all add: is_active_def)

text \<open>
  Claim C9. After the handlers have processed any sequence of events, starting from the
  initial engine, the order cached for an id is the order of the last order-update event
  for that id, and the Active Order Index holds that order exactly when its status is
  none of filled, cancelled and rejected: an id is in the index if and only if the most
  recently processed order for that id is active.
\<close>

theorem active_order_index_consistent:
  "orders (process_events (init_engine gws) es) orderid = latest_order es orderid
   \<and> active_orders (process_events (init_engine gws) es) orderid =
       (case latest_order es orderid of
          None \<Rightarrow> None
        | Some order \<Rightarrow>
            if order_status order \<in> {ALLTRADED, CANCELLED, REJECTED} then None else Some order)
   \<and> (orderid \<in> dom (active_orders (process_events (init_engine gws) es)) \<longleftrightarrow>
        (\<exists>order. latest_order es orderid = Some order
               \<and> order_status order \<notin> {ALLTRADED, CANCELLED, REJECTED}))"
  by (auto simp add: orders_process_events active_orders_process_events
      is_active_iff_not_terminal init_engine_def dom_def split: option.splits)

text \<open>
  C9 at four events: order 1 is submitted and later filled, order 2 stays untraded.
  Order 1 is out of the index, order 2 is in it.
\<close>

theorem active_order_index_consistent_witness:
  "latest_order [EVENT_ORDER (example_order ''1'' SUBMITTING),
                 EVENT_ORDER (example_order ''2'' NOTTRADED),
                 EVENT_TICK example_tick,
                 EVENT_ORDER (example_order ''1'' ALLTRADED)] ''G1.1''
     = Some (example_order ''1'' ALLTRADED)
   \<and> ''G1.1'' \<notin> dom (active_orders (process_events (init_engine Map.empty)
        [EVENT_ORDER (example_order ''1'' SUBMITTING),
         EVENT_ORDER (example_order ''2'' NOTTRADED),
         EVENT_TICK example_tick,
         EVENT_ORDER (example_order ''1'' ALLTRADED)]))
   \<and> ''G1.2'' \<in> dom (active_orders (process_events (init_engine Map.empty)
        [EVENT_ORDER (example_order ''1'' SUBMITTING),
         EVENT_ORDER (example_order ''2'' NOTTRADED),
         EVENT_TICK example_tick,
         EVENT_ORDER (example_order ''1'' ALLTRADED)]))"
proof -
  let ?es = "[EVENT_ORDER (example_order ''1'' SUBMITTING),
              EVENT_ORDER (example_order ''2'' NOTTRADED),
              EVENT_TICK example_tick,
              EVENT_ORDER (example_order ''1'' ALLTRADED)]"
  have l1: "latest_order ?es ''G1.1'' = Some (example_order ''1'' ALLTRADED)"
    and l2: "latest_order ?es ''G1.2'' = Some (example_order ''2'' NOTTRADED)"
    by (simp_all add: example_order_def)
  have st: "order_status (example_order ''1'' ALLTRADED) = ALLTRADED"
    "order_status (example_order ''2'' NOTTRADED) = NOTTRADED"
    by (simp_all add: example_order_def)
  show ?thesis
    using active_order_index_consistent [of Map.empty ?es "''G1.1''"]
      active_order_index_consistent [of Map.empty ?es "''G1.2''"]
    by (simp add: l1 l2 st del: process_events.simps latest_order.simps)
qed

section \<open>How failures reach the caller\<close>




end
